theory Spec2Isabelle
  imports Complex_Main "HOL-Library.Word"
begin

section \<open>Values of the program\<close>

text \<open>
  The program is a TypeScript batch updater of on-chain metadata records. Its own code
  (metadataUpdater.ts, utils.ts, index.ts) is embedded below function by function. What it
  calls in Node and in the ledger SDK (key parsing, UTF-8 transcoding, the RPC connection)
  is not part of the repository; those calls are the fields of the record \<open>web3\<close>, and
  every definition that uses one takes the record as its first argument.

  A JavaScript string is a \<open>string\<close>, one \<open>char\<close> for one code unit. A thrown value is a
  \<open>js_exn\<close>: an \<open>Error\<close> object with its message, or any other value with its
  \<open>String(...)\<close> rendering. Console output and the progress bar are left out.
\<close>

type_synonym byte = "8 word"

datatype js_exn = Error string | NonError string

text \<open>\<open>error instanceof Error ? error.message : String(error)\<close>\<close>

fun error_text :: "js_exn \<Rightarrow> string" where
  "error_text (Error message) = message"
| "error_text (NonError rendering) = rendering"

text \<open>The value \<open>undefined\<close>, when it is thrown.\<close>

definition js_undefined :: js_exn where
  "js_undefined = NonError ''undefined''"

text \<open>types.ts\<close>

record NFTMetadata =
  mint :: string
  name :: string
  symbol :: string
  uri :: string

datatype Status = updated | skipped | error

record Values =
  v_name :: string
  v_symbol :: string
  v_uri :: string

record ProcessResult =
  r_mint :: string
  r_status :: Status
  r_action :: "string option"
  r_oldValues :: "Values option"
  r_newValues :: "Values option"
  r_error :: "string option"
  r_transactionSignature :: "string option"
  r_timestamp :: string

record Tallies =
  processed :: int
  t_updated :: int
  t_skipped :: int
  t_failed :: int

record Checkpoint =
  lastProcessedIndex :: int
  processedMints :: "string list"
  c_timestamp :: string
  summary :: Tallies

text \<open>\<open>Summary\<close> without its \<open>duration\<close>, a rendering of the two times.\<close>

record Summary =
  totalProcessed :: int
  successfullyUpdated :: int
  s_skipped :: int
  s_failed :: int
  totalCostSOL :: real
  startTime :: string
  endTime :: string

text \<open>The fields of \<open>Config\<close> that the run reads once the manifest is loaded.\<close>

record Config =
  batchSize :: int
  batchDelayMs :: int
  dryRun :: bool
  skipConfirm :: bool
  maxRetries :: int
  retryDelayMs :: int
  checkpointInterval :: int
  resumeFromCheckpoint :: bool

text \<open>The SDK's transaction objects, as far as the program builds them.\<close>

record 'k AccountMeta =
  pubkey :: 'k
  isSigner :: bool
  isWritable :: bool

record 'k TransactionInstruction =
  keys :: "'k AccountMeta list"
  programId :: 'k
  ix_data :: "byte list"

record 'k Transaction =
  instructions :: "'k TransactionInstruction list"
  feePayer :: "'k option"

record 'k Keypair =
  publicKey :: 'k
  secretKey :: "byte list"

record AccountInfo =
  acc_data :: "byte list"

text \<open>
  The calls into Node and the SDK. \<open>'k\<close> is the value of a public key (\<open>equals\<close> on
  keys is equality of these values), \<open>'w\<close> the state of everything outside the process:
  the ledger, the network, the clock.
\<close>

record ('k, 'w) web3 =
  PublicKey_of_string :: "string \<Rightarrow> js_exn + 'k"
  PublicKey_of_bytes :: "byte list \<Rightarrow> js_exn + 'k"
  toBase58 :: "'k \<Rightarrow> string"
  toBuffer :: "'k \<Rightarrow> byte list"
  findProgramAddressSync :: "byte list list \<Rightarrow> 'k \<Rightarrow> js_exn + ('k \<times> nat)"
  TOKEN_METADATA_PROGRAM_ID :: 'k
  utf8_bytes :: "string \<Rightarrow> byte list"
  utf8_string :: "byte list \<Rightarrow> string"
  getAccountInfo :: "'k \<Rightarrow> 'w \<Rightarrow> (js_exn + AccountInfo option) \<times> 'w"
  sendAndConfirmTransaction ::
    "'k Transaction \<Rightarrow> 'k Keypair list \<Rightarrow> 'w \<Rightarrow> (js_exn + string) \<times> 'w"
  toISOString_now :: "'w \<Rightarrow> string"

text \<open>
  The state a run threads through its calls: the outside world, and what the process has
  done to it so far, in order. \<open>slept\<close> lists the durations handed to \<open>setTimeout\<close>,
  \<open>fetched\<close> the addresses handed to \<open>connection.getAccountInfo\<close>, \<open>submitted\<close> the
  transactions handed to \<open>sendAndConfirmTransaction\<close>, \<open>saved\<close> the checkpoints handed to
  \<open>saveCheckpoint\<close>. \<open>logs\<close> is the Logger's array; the remaining fields are the files of
  the log directory (\<open>None\<close> for a file that is absent or does not parse). Writing a file
  always succeeds.
\<close>

record ('k, 'w) rt =
  world :: 'w
  slept :: "int list"
  fetched :: "'k list"
  submitted :: "'k Transaction list"
  logs :: "ProcessResult list"
  checkpointFile :: "Checkpoint option"
  saved :: "Checkpoint list"
  logFile :: "ProcessResult list option"
  summaryFile :: "Summary option"
  failedFile :: "string list option"

section \<open>utils.ts: sleep and retryWithBackoff\<close>

definition sleep :: "int \<Rightarrow> ('k, 'w) rt \<Rightarrow> ('k, 'w) rt" where
  "sleep ms st = st\<lparr>slept := slept st @ [ms]\<rparr>"

text \<open>
  The \<open>for\<close> loop of \<open>retryWithBackoff\<close>, entered at \<open>attempt\<close> with the \<open>lastError\<close>
  caught so far. \<open>fn\<close> returns \<open>Inl\<close> when its promise rejects. The result \<open>Inl e\<close> is
  \<open>throw lastError\<close>; \<open>e = None\<close> when the loop body never ran, so that the thrown value is
  \<open>undefined\<close>.
\<close>

function retry_loop ::
  "(('k, 'w) rt \<Rightarrow> (js_exn + 'a) \<times> ('k, 'w) rt) \<Rightarrow> int \<Rightarrow> int \<Rightarrow> nat \<Rightarrow> js_exn option
    \<Rightarrow> ('k, 'w) rt \<Rightarrow> (js_exn option + 'a) \<times> ('k, 'w) rt" where
  "retry_loop fn retries baseDelay attempt lastError st =
     (if int attempt \<le> retries then
        (case fn st of
           (Inr v, st') \<Rightarrow> (Inr v, st')
         | (Inl e, st') \<Rightarrow>
             retry_loop fn retries baseDelay (attempt + 1) (Some e)
               (if int attempt < retries
                then sleep (baseDelay * 2 ^ attempt) st'
                else st'))
      else (Inl lastError, st))"
  by pat_completeness auto
termination
  by (relation "measure (\<lambda>(fn, retries, baseDelay, attempt, lastError, st).
        nat (retries + 1 - int attempt))") auto

definition retryWithBackoff ::
  "(('k, 'w) rt \<Rightarrow> (js_exn + 'a) \<times> ('k, 'w) rt) \<Rightarrow> int \<Rightarrow> int
    \<Rightarrow> ('k, 'w) rt \<Rightarrow> (js_exn option + 'a) \<times> ('k, 'w) rt" where
  "retryWithBackoff fn retries baseDelay st = retry_loop fn retries baseDelay 0 None st"

section \<open>Buffers and arrays\<close>

text \<open>
  \<open>Array.prototype.slice\<close> and \<open>Buffer.prototype.slice\<close>: a negative index counts from
  the end, both ends are clamped to the length, and an end before the start gives the
  empty slice. Neither throws.
\<close>

definition relative_index :: "int \<Rightarrow> nat \<Rightarrow> nat" where
  "relative_index k len = (if k < 0 then nat (int len + k) else min (nat k) len)"

definition slice :: "'a list \<Rightarrow> int \<Rightarrow> int \<Rightarrow> 'a list" where
  "slice xs start end =
     (let k = relative_index start (length xs);
          final = relative_index end (length xs)
      in take (final - k) (drop k xs))"

definition slice_from :: "'a list \<Rightarrow> int \<Rightarrow> 'a list" where
  "slice_from xs start = drop (relative_index start (length xs)) xs"

text \<open>\<open>buf.readUInt32LE(offset)\<close> throws a RangeError unless four bytes lie at the offset.\<close>

definition RangeError :: js_exn where
  "RangeError = Error ''ERR_OUT_OF_RANGE''"

definition readUInt32LE :: "byte list \<Rightarrow> nat \<Rightarrow> js_exn + nat" where
  "readUInt32LE buf offset =
     (if offset + 4 \<le> length buf
      then Inr (unat (buf ! offset) + 2 ^ 8 * unat (buf ! (offset + 1))
                + 2 ^ 16 * unat (buf ! (offset + 2)) + 2 ^ 24 * unat (buf ! (offset + 3)))
      else Inl RangeError)"

text \<open>\<open>Buffer.alloc(4)\<close> followed by \<open>writeUInt32LE(value, 0)\<close>.\<close>

definition writeUInt32LE :: "nat \<Rightarrow> js_exn + byte list" where
  "writeUInt32LE v =
     (if v < 2 ^ 32
      then Inr [of_nat v, of_nat (v div 2 ^ 8), of_nat (v div 2 ^ 16), of_nat (v div 2 ^ 24)]
      else Inl RangeError)"

section \<open>metadataUpdater.ts\<close>

definition getMetadataAccount :: "('k, 'w) web3 \<Rightarrow> 'k \<Rightarrow> js_exn + 'k" where
  "getMetadataAccount lib mintKey =
     (case findProgramAddressSync lib
             [utf8_bytes lib ''metadata'',
              toBuffer lib (TOKEN_METADATA_PROGRAM_ID lib),
              toBuffer lib mintKey]
             (TOKEN_METADATA_PROGRAM_ID lib) of
        Inl e \<Rightarrow> Inl e
      | Inr (metadataAccount, bump) \<Rightarrow> Inr metadataAccount)"

definition encodeString :: "('k, 'w) web3 \<Rightarrow> string \<Rightarrow> js_exn + byte list" where
  "encodeString lib str =
     (let strBytes = utf8_bytes lib str in
      case writeUInt32LE (length strBytes) of
        Inl e \<Rightarrow> Inl e
      | Inr len \<Rightarrow> Inr (len @ strBytes))"

definition createUpdateMetadataInstruction ::
  "('k, 'w) web3 \<Rightarrow> 'k \<Rightarrow> 'k \<Rightarrow> string \<Rightarrow> string \<Rightarrow> string
    \<Rightarrow> js_exn + 'k TransactionInstruction" where
  "createUpdateMetadataInstruction lib metadataAccount authority nm symb u =
     (let discriminator = [15 :: byte] in
      case encodeString lib nm of Inl e \<Rightarrow> Inl e | Inr encName \<Rightarrow>
      case encodeString lib symb of Inl e \<Rightarrow> Inl e | Inr encSymbol \<Rightarrow>
      case encodeString lib u of Inl e \<Rightarrow> Inl e | Inr encUri \<Rightarrow>
        Inr \<lparr>keys =
               [\<lparr>pubkey = metadataAccount, isSigner = False, isWritable = True\<rparr>,
                \<lparr>pubkey = authority, isSigner = True, isWritable = False\<rparr>],
             programId = TOKEN_METADATA_PROGRAM_ID lib,
             ix_data = discriminator @ [1] @ encName @ encSymbol @ encUri
                       @ [0, 0] @ [0] @ [0] @ [0] @ [0] @ [0] @ [0]\<rparr>)"

text \<open>What \<open>fetchCurrentMetadata\<close> returns when it does not return \<open>null\<close>.\<close>

record 'k OnChain =
  oc_name :: string
  oc_symbol :: string
  oc_uri :: string
  updateAuthority :: 'k

text \<open>\<open>.toString('utf-8').replace(/\0/g, '')\<close>\<close>

definition decode_text :: "('k, 'w) web3 \<Rightarrow> byte list \<Rightarrow> string" where
  "decode_text lib bytes = filter (\<lambda>c. c \<noteq> CHR 0x00) (utf8_string lib bytes)"

text \<open>
  Lines 119 to 150 of \<open>fetchCurrentMetadata\<close>: the parse of the account's data, inside the
  \<open>try\<close>. \<open>Inl\<close> is an exception on its way to the \<open>catch\<close>.
\<close>

definition parse_metadata_account :: "('k, 'w) web3 \<Rightarrow> byte list \<Rightarrow> js_exn + 'k OnChain" where
  "parse_metadata_account lib buf =
     (let offset = 1 in
      case PublicKey_of_bytes lib (slice buf (int offset) (int (offset + 32))) of
        Inl e \<Rightarrow> Inl e
      | Inr authority \<Rightarrow>
      let offset = offset + 32;
          offset = offset + 32 in
      case readUInt32LE buf offset of Inl e \<Rightarrow> Inl e | Inr nameLength \<Rightarrow>
      let offset = offset + 4;
          nm = decode_text lib (slice buf (int offset) (int (offset + nameLength)));
          offset = offset + nameLength in
      case readUInt32LE buf offset of Inl e \<Rightarrow> Inl e | Inr symbolLength \<Rightarrow>
      let offset = offset + 4;
          symb = decode_text lib (slice buf (int offset) (int (offset + symbolLength)));
          offset = offset + symbolLength in
      case readUInt32LE buf offset of Inl e \<Rightarrow> Inl e | Inr uriLength \<Rightarrow>
      let offset = offset + 4;
          u = decode_text lib (slice buf (int offset) (int (offset + uriLength)))
      in Inr \<lparr>oc_name = nm, oc_symbol = symb, oc_uri = u, updateAuthority = authority\<rparr>)"

text \<open>The body of the \<open>try\<close> of \<open>fetchCurrentMetadata\<close>.\<close>

definition fetchCurrentMetadata_try ::
  "('k, 'w) web3 \<Rightarrow> 'k \<Rightarrow> ('k, 'w) rt \<Rightarrow> (js_exn + 'k OnChain option) \<times> ('k, 'w) rt" where
  "fetchCurrentMetadata_try lib mintKey st =
     (case getMetadataAccount lib mintKey of
        Inl e \<Rightarrow> (Inl e, st)
      | Inr metadataAccount \<Rightarrow>
          (case getAccountInfo lib metadataAccount (world st) of
             (r, w') \<Rightarrow>
               let st' = st\<lparr>world := w', fetched := fetched st @ [metadataAccount]\<rparr> in
               (case r of
                  Inl e \<Rightarrow> (Inl e, st')
                | Inr None \<Rightarrow> (Inr None, st')
                | Inr (Some accountInfo) \<Rightarrow>
                    (case parse_metadata_account lib (acc_data accountInfo) of
                       Inl e \<Rightarrow> (Inl e, st')
                     | Inr current \<Rightarrow> (Inr (Some current), st')))))"

text \<open>With its \<open>catch\<close>, which logs the error and returns \<open>null\<close>.\<close>

definition fetchCurrentMetadata ::
  "('k, 'w) web3 \<Rightarrow> 'k \<Rightarrow> ('k, 'w) rt \<Rightarrow> 'k OnChain option \<times> ('k, 'w) rt" where
  "fetchCurrentMetadata lib mintKey st =
     (case fetchCurrentMetadata_try lib mintKey st of
        (Inl e, st') \<Rightarrow> (None, st')
      | (Inr current, st') \<Rightarrow> (current, st'))"

text \<open>
  \<open>String.prototype.trim\<close> removes white space and line terminators from both ends; these
  are the ones among the code units a \<open>char\<close> holds.
\<close>

definition isWhiteSpace :: "char \<Rightarrow> bool" where
  "isWhiteSpace c =
     (c \<in> set [CHR 0x09, CHR 0x0A, CHR 0x0B, CHR 0x0C, CHR 0x0D, CHR 0x20, CHR 0xA0])"

definition trim :: "string \<Rightarrow> string" where
  "trim s = rev (dropWhile isWhiteSpace (rev (dropWhile isWhiteSpace s)))"

definition isMetadataDifferent :: "'k OnChain \<Rightarrow> NFTMetadata \<Rightarrow> bool" where
  "isMetadataDifferent current original =
     (trim (oc_name current) \<noteq> trim (name original) \<or>
      trim (oc_symbol current) \<noteq> trim (symbol original) \<or>
      trim (oc_uri current) \<noteq> trim (uri original))"

text \<open>One call of \<open>sendAndConfirmTransaction\<close>, as the retry wrapper invokes it.\<close>

definition submit ::
  "('k, 'w) web3 \<Rightarrow> 'k Transaction \<Rightarrow> 'k Keypair list \<Rightarrow> ('k, 'w) rt
    \<Rightarrow> (js_exn + string) \<times> ('k, 'w) rt" where
  "submit lib transaction signers st =
     (case sendAndConfirmTransaction lib transaction signers (world st) of
        (r, w') \<Rightarrow> (r, st\<lparr>world := w', submitted := submitted st @ [transaction]\<rparr>))"

text \<open>\<open>throw lastError\<close> of the retry wrapper, as the value the caller catches.\<close>

definition thrown :: "js_exn option \<Rightarrow> js_exn" where
  "thrown lastError = (case lastError of None \<Rightarrow> js_undefined | Some e \<Rightarrow> e)"

text \<open>The body of the \<open>try\<close> of \<open>updateNFTMetadata\<close>, lines 198 to 298.\<close>

definition updateNFTMetadata_try ::
  "('k, 'w) web3 \<Rightarrow> 'k Keypair \<Rightarrow> NFTMetadata \<Rightarrow> 'k \<Rightarrow> string \<Rightarrow> bool \<Rightarrow> int \<Rightarrow> int
    \<Rightarrow> ('k, 'w) rt \<Rightarrow> (js_exn + ProcessResult) \<times> ('k, 'w) rt" where
  "updateNFTMetadata_try lib wallet metadata mintKey timestamp dry retries retryDelay st =
     (case retryWithBackoff
             (\<lambda>s. case fetchCurrentMetadata lib mintKey s of (r, s') \<Rightarrow> (Inr r, s'))
             retries retryDelay st of
        (Inl lastError, st1) \<Rightarrow> (Inl (thrown lastError), st1)
      | (Inr None, st1) \<Rightarrow>
          (Inr \<lparr>r_mint = mint metadata, r_status = error, r_action = None,
                r_oldValues = None, r_newValues = None,
                r_error = Some ''Failed to fetch current metadata'',
                r_transactionSignature = None, r_timestamp = timestamp\<rparr>, st1)
      | (Inr (Some current), st1) \<Rightarrow>
          if updateAuthority current \<noteq> publicKey wallet then
            (Inr \<lparr>r_mint = mint metadata, r_status = error, r_action = None,
                  r_oldValues = None, r_newValues = None,
                  r_error = Some (''Update authority mismatch. Expected: ''
                                  @ toBase58 lib (publicKey wallet) @ '', Found: ''
                                  @ toBase58 lib (updateAuthority current)),
                  r_transactionSignature = None, r_timestamp = timestamp\<rparr>, st1)
          else if \<not> isMetadataDifferent current metadata then
            (Inr \<lparr>r_mint = mint metadata, r_status = skipped,
                  r_action = Some ''metadata already matches'',
                  r_oldValues = None, r_newValues = None, r_error = None,
                  r_transactionSignature = None, r_timestamp = timestamp\<rparr>, st1)
          else if dry then
            (Inr \<lparr>r_mint = mint metadata, r_status = updated,
                  r_action = Some ''dry run - would update'',
                  r_oldValues = Some \<lparr>v_name = oc_name current, v_symbol = oc_symbol current,
                                      v_uri = oc_uri current\<rparr>,
                  r_newValues = Some \<lparr>v_name = name metadata, v_symbol = symbol metadata,
                                      v_uri = uri metadata\<rparr>,
                  r_error = None, r_transactionSignature = None, r_timestamp = timestamp\<rparr>, st1)
          else
            (case getMetadataAccount lib mintKey of
               Inl e \<Rightarrow> (Inl e, st1)
             | Inr metadataAccount \<Rightarrow>
            (case createUpdateMetadataInstruction lib metadataAccount (publicKey wallet)
                    (name metadata) (symbol metadata) (uri metadata) of
               Inl e \<Rightarrow> (Inl e, st1)
             | Inr updateInstruction \<Rightarrow>
            let transaction = \<lparr>instructions = [updateInstruction],
                               feePayer = Some (publicKey wallet)\<rparr> in
            (case retryWithBackoff (submit lib transaction [wallet]) retries retryDelay st1 of
               (Inl lastError, st2) \<Rightarrow> (Inl (thrown lastError), st2)
             | (Inr signature, st2) \<Rightarrow>
                 (Inr \<lparr>r_mint = mint metadata, r_status = updated, r_action = None,
                       r_oldValues = Some \<lparr>v_name = oc_name current,
                                           v_symbol = oc_symbol current,
                                           v_uri = oc_uri current\<rparr>,
                       r_newValues = Some \<lparr>v_name = name metadata, v_symbol = symbol metadata,
                                           v_uri = uri metadata\<rparr>,
                       r_error = None, r_transactionSignature = Some signature,
                       r_timestamp = timestamp\<rparr>, st2)))))"

text \<open>
  \<open>updateNFTMetadata\<close>: the two statements before the \<open>try\<close>, the \<open>try\<close>, and the
  \<open>catch\<close> that turns an exception into a result. \<open>Inl\<close> is a rejection of the promise
  the function returns.
\<close>

definition updateNFTMetadata ::
  "('k, 'w) web3 \<Rightarrow> 'k Keypair \<Rightarrow> NFTMetadata \<Rightarrow> bool \<Rightarrow> int \<Rightarrow> int
    \<Rightarrow> ('k, 'w) rt \<Rightarrow> (js_exn + ProcessResult) \<times> ('k, 'w) rt" where
  "updateNFTMetadata lib wallet metadata dry retries retryDelay st =
     (let timestamp = toISOString_now lib (world st) in
      case PublicKey_of_string lib (mint metadata) of
        Inl e \<Rightarrow> (Inl e, st)
      | Inr mintKey \<Rightarrow>
          (case updateNFTMetadata_try lib wallet metadata mintKey timestamp dry retries
                  retryDelay st of
             (Inl e, st') \<Rightarrow>
               (Inr \<lparr>r_mint = mint metadata, r_status = error, r_action = None,
                     r_oldValues = None, r_newValues = None, r_error = Some (error_text e),
                     r_transactionSignature = None, r_timestamp = timestamp\<rparr>, st')
           | (Inr result, st') \<Rightarrow> (Inr result, st')))"

text \<open>\<open>logger.logResult\<close>\<close>

definition logResult :: "ProcessResult \<Rightarrow> ('k, 'w) rt \<Rightarrow> ('k, 'w) rt" where
  "logResult result st = st\<lparr>logs := logs st @ [result]\<rparr>"

text \<open>The \<open>for\<close> loop of \<open>processBatch\<close> over what is left of the batch.\<close>

fun processBatch_loop ::
  "('k, 'w) web3 \<Rightarrow> 'k Keypair \<Rightarrow> NFTMetadata list \<Rightarrow> bool \<Rightarrow> int \<Rightarrow> int
    \<Rightarrow> ProcessResult list \<Rightarrow> ('k, 'w) rt \<Rightarrow> (js_exn + ProcessResult list) \<times> ('k, 'w) rt" where
  "processBatch_loop lib wallet [] dry retries retryDelay results st = (Inr results, st)"
| "processBatch_loop lib wallet (metadata # batch) dry retries retryDelay results st =
     (case updateNFTMetadata lib wallet metadata dry retries retryDelay st of
        (Inl e, st') \<Rightarrow> (Inl e, st')
      | (Inr result, st') \<Rightarrow>
          processBatch_loop lib wallet batch dry retries retryDelay (results @ [result])
            (sleep 100 (logResult result st')))"

definition processBatch ::
  "('k, 'w) web3 \<Rightarrow> 'k Keypair \<Rightarrow> NFTMetadata list \<Rightarrow> bool \<Rightarrow> int \<Rightarrow> int
    \<Rightarrow> ('k, 'w) rt \<Rightarrow> (js_exn + ProcessResult list) \<times> ('k, 'w) rt" where
  "processBatch lib wallet batch dry retries retryDelay st =
     processBatch_loop lib wallet batch dry retries retryDelay [] st"

text \<open>A string is truthy unless it is empty; an absent field is \<open>undefined\<close>, not truthy.\<close>

definition truthy :: "string option \<Rightarrow> bool" where
  "truthy s = (case s of None \<Rightarrow> False | Some t \<Rightarrow> t \<noteq> [])"

text \<open>
  \<open>calculateTotalCost\<close>; \<open>avgFeePerTx = None\<close> when the caller leaves the argument out.
  The product is taken in the reals.
\<close>

definition calculateTotalCost :: "ProcessResult list \<Rightarrow> real option \<Rightarrow> real" where
  "calculateTotalCost results avgFeePerTx =
     (let fee = (case avgFeePerTx of None \<Rightarrow> 5 / 1000000 | Some f \<Rightarrow> f);
          successfulUpdates =
            filter (\<lambda>r. r_status r = updated \<and> truthy (r_transactionSignature r)) results
      in real (length successfulUpdates) * fee)"

section \<open>utils.ts: the checkpoint file and the summary\<close>

definition saveCheckpoint :: "Checkpoint \<Rightarrow> ('k, 'w) rt \<Rightarrow> ('k, 'w) rt" where
  "saveCheckpoint checkpoint st =
     st\<lparr>checkpointFile := Some checkpoint, saved := saved st @ [checkpoint]\<rparr>"

definition loadCheckpoint :: "('k, 'w) rt \<Rightarrow> Checkpoint option" where
  "loadCheckpoint st = checkpointFile st"

definition deleteCheckpoint :: "('k, 'w) rt \<Rightarrow> ('k, 'w) rt" where
  "deleteCheckpoint st = st\<lparr>checkpointFile := None\<rparr>"

definition createSummary :: "int \<Rightarrow> int \<Rightarrow> int \<Rightarrow> int \<Rightarrow> real \<Rightarrow> string \<Rightarrow> string \<Rightarrow> Summary" where
  "createSummary nProcessed nUpdated nSkipped nFailed cost t0 t1 =
     \<lparr>totalProcessed = nProcessed, successfullyUpdated = nUpdated, s_skipped = nSkipped,
      s_failed = nFailed, totalCostSOL = cost, startTime = t0, endTime = t1\<rparr>"

section \<open>index.ts: main, from the loaded manifest on\<close>

text \<open>
  Lines 157 to 178: the start index, the tallies carried over and the records to process.
  \<open>previousResults\<close> is read for its three counts only; a fresh run starts them at 0.
\<close>

definition resume_plan ::
  "Config \<Rightarrow> NFTMetadata list \<Rightarrow> ('k, 'w) rt \<Rightarrow> int \<times> Tallies \<times> NFTMetadata list" where
  "resume_plan config allMetadata st =
     (let fresh = \<lparr>processed = 0, t_updated = 0, t_skipped = 0, t_failed = 0\<rparr> in
      case (if resumeFromCheckpoint config
            then (case loadCheckpoint st of
                    Some checkpoint \<Rightarrow>
                      (lastProcessedIndex checkpoint + 1, summary checkpoint,
                       filter (\<lambda>m. mint m \<notin> set (processedMints checkpoint)) allMetadata)
                  | None \<Rightarrow> (0, fresh, allMetadata))
            else (0, fresh, allMetadata)) of
        (startIndex, previousResults, remaining) \<Rightarrow>
          (startIndex, previousResults, slice_from remaining startIndex))"

text \<open>The counters of lines 229 to 234; \<open>seenMints\<close> is the local array
  \<open>processedMints\<close>.\<close>

record Counters =
  processedCount :: int
  updatedCount :: int
  skippedCount :: int
  failedCount :: int
  failedMints :: "string list"
  seenMints :: "string list"

text \<open>Their values when the loop is entered, from the tallies carried over.\<close>

definition initial_counters :: "Tallies \<Rightarrow> Counters" where
  "initial_counters previousResults =
     \<lparr>processedCount = 0,
      updatedCount = t_updated previousResults,
      skippedCount = t_skipped previousResults,
      failedCount = t_failed previousResults,
      failedMints = [], seenMints = []\<rparr>"

text \<open>Lines 251 to 263.\<close>

fun update_counters :: "ProcessResult list \<Rightarrow> Counters \<Rightarrow> Counters" where
  "update_counters [] c = c"
| "update_counters (result # results) c =
     update_counters results
       (let c1 = c\<lparr>processedCount := processedCount c + 1,
                   seenMints := seenMints c @ [r_mint result]\<rparr>
        in if r_status result = updated then c1\<lparr>updatedCount := updatedCount c1 + 1\<rparr>
           else if r_status result = skipped then c1\<lparr>skippedCount := skippedCount c1 + 1\<rparr>
           else if r_status result = error
             then c1\<lparr>failedCount := failedCount c1 + 1,
                     failedMints := failedMints c1 @ [r_mint result]\<rparr>
           else c1)"

text \<open>
  One pass through the body of the batch loop, lines 238 to 287, at index \<open>i\<close>.
  \<open>a % b === 0\<close> is false when \<open>b\<close> is 0, the remainder being NaN.
\<close>

definition batch_iteration ::
  "('k, 'w) web3 \<Rightarrow> 'k Keypair \<Rightarrow> Config \<Rightarrow> NFTMetadata list \<Rightarrow> int \<Rightarrow> int \<Rightarrow> Counters
    \<Rightarrow> ('k, 'w) rt \<Rightarrow> (js_exn + Counters) \<times> ('k, 'w) rt" where
  "batch_iteration lib wallet config metadata startIndex i c st =
     (let batch = slice metadata i (i + batchSize config) in
      case processBatch lib wallet batch (dryRun config) (maxRetries config)
             (retryDelayMs config) st of
        (Inl e, st1) \<Rightarrow> (Inl e, st1)
      | (Inr results, st1) \<Rightarrow>
          let c1 = update_counters results c;
              st2 = (if checkpointInterval config \<noteq> 0
                        \<and> processedCount c1 mod checkpointInterval config = 0
                     then saveCheckpoint
                            \<lparr>lastProcessedIndex = startIndex + processedCount c1 - 1,
                             processedMints = seenMints c1,
                             c_timestamp = toISOString_now lib (world st1),
                             summary = \<lparr>processed = processedCount c1,
                                        t_updated = updatedCount c1,
                                        t_skipped = skippedCount c1,
                                        t_failed = failedCount c1\<rparr>\<rparr> st1
                     else st1);
              st3 = (if i + batchSize config < int (length metadata)
                     then sleep (batchDelayMs config) st2
                     else st2)
          in (Inr c1, st3))"

text \<open>
  The batch loop, \<open>for (let i = 0; i < metadata.length; i += config.batchSize)\<close>, entered
  at \<open>i\<close>. \<open>None\<close>: the loop does not end. \<open>Some (Inl e, _)\<close>: a batch threw \<open>e\<close>.
\<close>

partial_function (option) batch_loop ::
  "('k, 'w) web3 \<Rightarrow> 'k Keypair \<Rightarrow> Config \<Rightarrow> NFTMetadata list \<Rightarrow> int \<Rightarrow> int \<Rightarrow> Counters
    \<Rightarrow> ('k, 'w) rt \<Rightarrow> ((js_exn + Counters) \<times> ('k, 'w) rt) option" where
  "batch_loop lib wallet config metadata startIndex i c st =
     (if i < int (length metadata) then
        (case batch_iteration lib wallet config metadata startIndex i c st of
           (Inl e, st') \<Rightarrow> Some (Inl e, st')
         | (Inr c', st') \<Rightarrow>
             batch_loop lib wallet config metadata startIndex (i + batchSize config) c' st')
      else Some (Inr c, st))"

text \<open>How \<open>main\<close> ends: by one of its two early returns, after the summary, or in its
  \<open>catch\<close>, which exits with code 1.\<close>

datatype main_exit = NothingToProcess | Cancelled | Completed Summary | Exit1 js_exn

text \<open>
  \<open>main\<close> from line 157 on, with the Logger of line 120 constructed empty. \<open>answer\<close> is
  what the operator replies to the confirmation prompt.
\<close>

definition main_run ::
  "('k, 'w) web3 \<Rightarrow> 'k Keypair \<Rightarrow> Config \<Rightarrow> NFTMetadata list \<Rightarrow> bool \<Rightarrow> ('k, 'w) rt
    \<Rightarrow> (main_exit \<times> ('k, 'w) rt) option" where
  "main_run lib wallet config allMetadata answer st =
     (let st0 = st\<lparr>logs := []\<rparr> in
      case resume_plan config allMetadata st0 of
        (startIndex, previousResults, metadata) \<Rightarrow>
          if length metadata = 0 then Some (NothingToProcess, st0)
          else if \<not> skipConfirm config \<and> \<not> answer then Some (Cancelled, st0)
          else
            let t0 = toISOString_now lib (world st0);
                c0 = initial_counters previousResults
            in case batch_loop lib wallet config metadata startIndex 0 c0 st0 of
                 None \<Rightarrow> None
               | Some (Inl e, st1) \<Rightarrow> Some (Exit1 e, st1)
               | Some (Inr c, st1) \<Rightarrow>
                   let t1 = toISOString_now lib (world st1);
                       cost = (if dryRun config then 0 else calculateTotalCost (logs st1) None);
                       report = createSummary (processedCount c) (updatedCount c)
                                  (skippedCount c) (failedCount c) cost t0 t1;
                       st2 = st1\<lparr>logFile := Some (logs st1), summaryFile := Some report\<rparr>;
                       st3 = (if length (failedMints c) > 0
                              then st2\<lparr>failedFile := Some (failedMints c)\<rparr> else st2);
                       st4 = (if failedCount c = 0 then deleteCheckpoint st3 else st3)
                   in Some (Completed report, st4))"

section \<open>Notions of the specification\<close>


text \<open>The world after \<open>n\<close> invocations of \<open>f\<close>, and what invocation \<open>i\<close> (from 0) returns.\<close>

fun after :: "('w \<Rightarrow> (js_exn + 'a) \<times> 'w) \<Rightarrow> nat \<Rightarrow> 'w \<Rightarrow> 'w" where
  "after f 0 w = w"
| "after f (Suc n) w = after f n (snd (f w))"


text \<open>
  The synthetic account of the round-trip property: a key byte, the 32 bytes of the
  authority, the 32 bytes of the mint, then the three strings as \<open>encodeString\<close> writes
  them, and any bytes after them.
\<close>

definition syntheticAccountBytes ::
  "('k, 'w) web3 \<Rightarrow> byte \<Rightarrow> byte list \<Rightarrow> byte list \<Rightarrow> string \<Rightarrow> string \<Rightarrow> string
    \<Rightarrow> byte list \<Rightarrow> js_exn + byte list" where
  "syntheticAccountBytes lib key authority32 mint32 nm symb u rest =
     (case encodeString lib nm of Inl e \<Rightarrow> Inl e | Inr encName \<Rightarrow>
      case encodeString lib symb of Inl e \<Rightarrow> Inl e | Inr encSymbol \<Rightarrow>
      case encodeString lib u of Inl e \<Rightarrow> Inl e | Inr encUri \<Rightarrow>
        Inr ([key] @ authority32 @ mint32 @ encName @ encSymbol @ encUri @ rest))"

text \<open>A string without its trailing NUL padding, and without any NUL.\<close>

definition strip_trailing_nul :: "string \<Rightarrow> string" where
  "strip_trailing_nul s = rev (dropWhile (\<lambda>c. c = CHR 0x00) (rev s))"

definition remove_nul :: "string \<Rightarrow> string" where
  "remove_nul s = filter (\<lambda>c. c \<noteq> CHR 0x00) s"

text \<open>The 32-bit little-endian number at an offset of a buffer, 0 where the buffer ends
  before it.\<close>

definition u32_at :: "byte list \<Rightarrow> nat \<Rightarrow> nat" where
  "u32_at buf off = (case readUInt32LE buf off of Inl e \<Rightarrow> 0 | Inr n \<Rightarrow> n)"

text \<open>
  What a single record's update leaves alone: the Logger's array and the files of the log
  directory.
\<close>

definition leaves_files :: "('k, 'w) rt \<Rightarrow> ('k, 'w) rt \<Rightarrow> bool" where
  "leaves_files st st' =
     (logs st' = logs st \<and> saved st' = saved st \<and> checkpointFile st' = checkpointFile st
      \<and> logFile st' = logFile st \<and> summaryFile st' = summaryFile st
      \<and> failedFile st' = failedFile st)"

text \<open>
  The numbers of records processed at the end of each batch, for batches of \<open>bs\<close> records
  over \<open>n\<close> records, from index \<open>i\<close> on.
\<close>

function batch_ends :: "nat \<Rightarrow> nat \<Rightarrow> nat \<Rightarrow> nat list" where
  "batch_ends bs n i =
     (if i < n \<and> 0 < bs then min (i + bs) n # batch_ends bs n (i + bs) else [])"
  by pat_completeness auto
termination
  by (relation "measure (\<lambda>(bs, n, i). n - i)") auto

text \<open>
  A checkpoint as a run over \<open>metadata\<close> that started at \<open>startIndex\<close> should save it: its
  index is the start index plus the number of records processed, less one; its mints are
  those of the records processed, in order; and that number is positive and a multiple of
  the checkpoint interval.
\<close>

definition sound_checkpoint :: "Config \<Rightarrow> NFTMetadata list \<Rightarrow> int \<Rightarrow> Checkpoint \<Rightarrow> bool" where
  "sound_checkpoint config metadata startIndex ck =
     (lastProcessedIndex ck = startIndex + processed (summary ck) - 1
      \<and> processedMints ck = map mint (take (nat (processed (summary ck))) metadata)
      \<and> 0 < processed (summary ck) \<and> processed (summary ck) \<le> int (length metadata)
      \<and> checkpointInterval config \<noteq> 0
      \<and> processed (summary ck) mod checkpointInterval config = 0)"

section \<open>A library and a world to run the program on\<close>

text \<open>
  For evaluating the program on concrete inputs: keys as the numbers the SDK holds
  (\<open>new BN(bytes)\<close>, big-endian), Base58 as the SDK's codec computes it, and UTF-8 on code
  units below 0x80, where it is one byte for one unit. The derived address is a stand-in
  for the SDK's hash: a number computed from all the seeds. The world is a ledger of
  account data by address, a count of \<open>getAccountInfo\<close> calls that will still fail before the
  network recovers, and a clock that stands still. Submitting a transaction returns a
  signature and leaves the ledger as it is. The program id is the number that
  \<open>metaqbxxUerdq28cj1RbAWkYQm3ybzjb6a8bt518x1s\<close> decodes to.
\<close>

definition base58_alphabet :: string where
  "base58_alphabet = ''123456789ABCDEFGHJKLMNPQRSTUVWXYZabcdefghijkmnopqrstuvwxyz''"

fun index_of :: "'a \<Rightarrow> 'a list \<Rightarrow> nat" where
  "index_of x [] = 0"
| "index_of x (y # ys) = (if x = y then 0 else Suc (index_of x ys))"

definition bn_of_bytes :: "byte list \<Rightarrow> nat" where
  "bn_of_bytes bs = foldl (\<lambda>a b. 256 * a + unat b) 0 bs"

fun bytes_of_bn :: "nat \<Rightarrow> byte list" where
  "bytes_of_bn n = (if n = 0 then [] else bytes_of_bn (n div 256) @ [of_nat n])"

fun base58_digits :: "nat \<Rightarrow> string" where
  "base58_digits n =
     (if n = 0 then [] else base58_digits (n div 58) @ [base58_alphabet ! (n mod 58)])"

definition bs58_decode :: "string \<Rightarrow> js_exn + byte list" where
  "bs58_decode s =
     (if list_ex (\<lambda>c. c \<notin> set base58_alphabet) s then Inl (Error ''Non-base58 character'')
      else Inr (replicate (length (takeWhile (\<lambda>c. c = CHR ''1'') s)) 0
                @ bytes_of_bn (foldl (\<lambda>a c. 58 * a + index_of c base58_alphabet) 0 s)))"

definition bs58_encode :: "byte list \<Rightarrow> string" where
  "bs58_encode bs =
     replicate (length (takeWhile (\<lambda>b. b = 0) bs)) (CHR ''1'') @ base58_digits (bn_of_bytes bs)"

definition sim_PublicKey_of_string :: "string \<Rightarrow> js_exn + nat" where
  "sim_PublicKey_of_string s =
     (case bs58_decode s of
        Inl e \<Rightarrow> Inl e
      | Inr decoded \<Rightarrow>
          if length decoded \<noteq> 32 then Inl (Error ''Invalid public key input'')
          else Inr (bn_of_bytes decoded))"

definition sim_PublicKey_of_bytes :: "byte list \<Rightarrow> js_exn + nat" where
  "sim_PublicKey_of_bytes bs =
     (if 2 ^ 256 \<le> bn_of_bytes bs then Inl (Error ''Invalid public key input'')
      else Inr (bn_of_bytes bs))"

definition sim_toBuffer :: "nat \<Rightarrow> byte list" where
  "sim_toBuffer k = replicate (32 - length (bytes_of_bn k)) 0 @ bytes_of_bn k"

definition sim_utf8_bytes :: "string \<Rightarrow> byte list" where
  "sim_utf8_bytes s = map (\<lambda>c. of_nat (of_char c)) s"

definition sim_utf8_string :: "byte list \<Rightarrow> string" where
  "sim_utf8_string bs = map (\<lambda>b. char_of (unat b)) bs"

definition sim_address :: "byte list list \<Rightarrow> nat" where
  "sim_address seeds = bn_of_bytes (concat seeds) mod 2 ^ 256"

definition sim_program_id :: nat where
  "sim_program_id =
     5174030077954762766333876384358785143419896121246119714368009399963057924422"

definition sim_metadata_address :: "nat \<Rightarrow> nat" where
  "sim_metadata_address k =
     sim_address [sim_utf8_bytes ''metadata'', sim_toBuffer sim_program_id, sim_toBuffer k]"

record sim_world =
  ledger :: "nat \<Rightarrow> byte list option"
  outages :: nat
  clock :: string

definition sim_getAccountInfo ::
  "nat \<Rightarrow> sim_world \<Rightarrow> (js_exn + AccountInfo option) \<times> sim_world" where
  "sim_getAccountInfo address w =
     (if 0 < outages w then (Inl (Error ''fetch failed''), w\<lparr>outages := outages w - 1\<rparr>)
      else (Inr (map_option (\<lambda>d. \<lparr>acc_data = d\<rparr>) (ledger w address)), w))"

definition sim_lib :: "(nat, sim_world) web3" where
  "sim_lib =
     \<lparr>PublicKey_of_string = sim_PublicKey_of_string,
      PublicKey_of_bytes = sim_PublicKey_of_bytes,
      toBase58 = (\<lambda>k. bs58_encode (sim_toBuffer k)),
      toBuffer = sim_toBuffer,
      findProgramAddressSync = (\<lambda>seeds program. Inr (sim_address seeds, 255)),
      TOKEN_METADATA_PROGRAM_ID = sim_program_id,
      utf8_bytes = sim_utf8_bytes,
      utf8_string = sim_utf8_string,
      getAccountInfo = sim_getAccountInfo,
      sendAndConfirmTransaction = (\<lambda>transaction signers w. (Inr ''signature'', w)),
      toISOString_now = clock\<rparr>"

text \<open>The state of a process that has done nothing yet, in world \<open>w\<close>.\<close>

definition sim_start :: "'w \<Rightarrow> (nat, 'w) rt" where
  "sim_start w =
     \<lparr>world = w, slept = [], fetched = [], submitted = [], logs = [],
      checkpointFile = None, saved = [], logFile = None, summaryFile = None,
      failedFile = None\<rparr>"


text \<open>
  Four mint addresses (the keys 1 to 4), a wallet, an account as the ledger holds it
  (name padded with NUL), and worlds in which every address holds the same account data,
  or none.
\<close>

definition mint_A :: string where "mint_A = ''11111111111111111111111111111112''"
definition mint_B :: string where "mint_B = ''11111111111111111111111111111113''"
definition mint_C :: string where "mint_C = ''11111111111111111111111111111114''"
definition mint_D :: string where "mint_D = ''11111111111111111111111111111115''"

definition sim_wallet :: "nat \<Rightarrow> nat Keypair" where
  "sim_wallet k = \<lparr>publicKey = k, secretKey = []\<rparr>"

definition doge_account :: "byte list" where
  "doge_account =
     [4] @ replicate 31 0 @ [9] @ replicate 32 0
     @ [6, 0, 0, 0] @ [68, 111, 103, 101, 0, 0]
     @ [4, 0, 0, 0] @ [68, 79, 71, 69]
     @ [5, 0, 0, 0] @ [117, 58, 47, 47, 49]"

definition sim_world_of :: "byte list option \<Rightarrow> nat \<Rightarrow> sim_world" where
  "sim_world_of account failing =
     \<lparr>ledger = (\<lambda>address. account), outages = failing, clock = ''2024-01-01T00:00:00.000Z''\<rparr>"

definition target :: "string \<Rightarrow> string \<Rightarrow> NFTMetadata" where
  "target address nm = \<lparr>mint = address, name = nm, symbol = ''DOGE'', uri = ''u://1''\<rparr>"

text \<open>The configuration \<open>loadConfig\<close> returns when the environment sets nothing but
  \<open>SKIP_CONFIRM\<close>.\<close>

definition default_config :: Config where
  "default_config =
     \<lparr>batchSize = 25, batchDelayMs = 500, dryRun = True, skipConfirm = True, maxRetries = 3,
      retryDelayMs = 1000, checkpointInterval = 100, resumeFromCheckpoint = False\<rparr>"

definition sim_result :: "string \<Rightarrow> Status \<Rightarrow> string option \<Rightarrow> ProcessResult" where
  "sim_result address s signature =
     \<lparr>r_mint = address, r_status = s, r_action = None, r_oldValues = None,
      r_newValues = None, r_error = None, r_transactionSignature = signature,
      r_timestamp = ''2024-01-01T00:00:00.000Z''\<rparr>"

text \<open>A manifest of four records, and the result of a dry run on a record whose target
  differs from \<open>doge_account\<close>.\<close>

definition manifest4 :: "NFTMetadata list" where
  "manifest4 =
     [target mint_A ''Doge #1'', target mint_B ''Doge #2'',
      target mint_C ''Doge #3'', target mint_D ''Doge #4'']"

definition sim_dry_result :: "NFTMetadata \<Rightarrow> ProcessResult" where
  "sim_dry_result m =
     \<lparr>r_mint = mint m, r_status = updated, r_action = Some ''dry run - would update'',
      r_oldValues = Some \<lparr>v_name = ''Doge'', v_symbol = ''DOGE'', v_uri = ''u://1''\<rparr>,
      r_newValues = Some \<lparr>v_name = name m, v_symbol = symbol m, v_uri = uri m\<rparr>,
      r_error = None, r_transactionSignature = None,
      r_timestamp = ''2024-01-01T00:00:00.000Z''\<rparr>"

section \<open>The retry wrapper\<close>

declare retry_loop.simps [simp del]
declare bytes_of_bn.simps [simp del]
declare base58_digits.simps [simp del]

lemma after_Suc_right: "after f (Suc n) w = snd (f (after f n w))"
  by (induction n arbitrary: w) simp_all












section \<open>The paths through updateNFTMetadata\<close>

lemma retry_immediate:
  "0 \<le> r \<Longrightarrow> fn st = (Inr v, st') \<Longrightarrow> retryWithBackoff fn r d st = (Inr v, st')"
  unfolding retryWithBackoff_def by (subst retry_loop.simps) simp

lemma retry_negative:
  "r < 0 \<Longrightarrow> retryWithBackoff fn r d st = (Inl None, st)"
  unfolding retryWithBackoff_def by (subst retry_loop.simps) simp

lemma retry_fetch:
  "0 \<le> r \<Longrightarrow>
   retryWithBackoff (\<lambda>s. case fetchCurrentMetadata lib mk s of (c, s') \<Rightarrow> (Inr c, s')) r d st
     = (Inr (fst (fetchCurrentMetadata lib mk st)), snd (fetchCurrentMetadata lib mk st))"
  by (rule retry_immediate) (simp_all add: case_prod_beta)

lemma fetch_frame:
  "fetchCurrentMetadata lib mk st = (c, st1) \<Longrightarrow>
   (st1 = st \<and> c = None) \<or> (\<exists>w' a. st1 = st\<lparr>world := w', fetched := fetched st @ [a]\<rparr>)"
  unfolding fetchCurrentMetadata_def fetchCurrentMetadata_try_def Let_def
  by (auto split: sum.splits option.splits prod.splits)

lemma fetch_throw:
  "getMetadataAccount lib mk = Inr a \<Longrightarrow> getAccountInfo lib a (world st) = (Inl e, w') \<Longrightarrow>
   fetchCurrentMetadata lib mk st = (None, st\<lparr>world := w', fetched := fetched st @ [a]\<rparr>)"
  by (simp add: fetchCurrentMetadata_def fetchCurrentMetadata_try_def)

lemma fetch_absent:
  "getMetadataAccount lib mk = Inr a \<Longrightarrow> getAccountInfo lib a (world st) = (Inr None, w') \<Longrightarrow>
   fetchCurrentMetadata lib mk st = (None, st\<lparr>world := w', fetched := fetched st @ [a]\<rparr>)"
  by (simp add: fetchCurrentMetadata_def fetchCurrentMetadata_try_def)

lemma fetch_present:
  "getMetadataAccount lib mk = Inr a \<Longrightarrow>
   getAccountInfo lib a (world st) = (Inr (Some acc), w') \<Longrightarrow>
   fetchCurrentMetadata lib mk st =
     ((case parse_metadata_account lib (acc_data acc) of Inl e \<Rightarrow> None | Inr c \<Rightarrow> Some c),
      st\<lparr>world := w', fetched := fetched st @ [a]\<rparr>)"
  by (simp add: fetchCurrentMetadata_def fetchCurrentMetadata_try_def split: sum.splits)

lemma update_unparsable:
  "PublicKey_of_string lib (mint m) = Inl e \<Longrightarrow>
   updateNFTMetadata lib wallet m dry r d st = (Inl e, st)"
  by (simp add: updateNFTMetadata_def)

lemma update_not_fetched:
  assumes "PublicKey_of_string lib (mint m) = Inr mk" "0 \<le> r"
    and "fetchCurrentMetadata lib mk st = (None, st1)"
  shows "updateNFTMetadata lib wallet m dry r d st =
     (Inr \<lparr>r_mint = mint m, r_status = error, r_action = None,
           r_oldValues = None, r_newValues = None,
           r_error = Some ''Failed to fetch current metadata'',
           r_transactionSignature = None,
           r_timestamp = toISOString_now lib (world st)\<rparr>, st1)"
  using assms
  by (simp add: updateNFTMetadata_def updateNFTMetadata_try_def retry_fetch)

lemma update_mismatch:
  assumes "PublicKey_of_string lib (mint m) = Inr mk" "0 \<le> r"
    and "fetchCurrentMetadata lib mk st = (Some cur, st1)"
    and "updateAuthority cur \<noteq> publicKey wallet"
  shows "updateNFTMetadata lib wallet m dry r d st =
     (Inr \<lparr>r_mint = mint m, r_status = error, r_action = None,
           r_oldValues = None, r_newValues = None,
           r_error = Some (''Update authority mismatch. Expected: ''
                           @ toBase58 lib (publicKey wallet) @ '', Found: ''
                           @ toBase58 lib (updateAuthority cur)),
           r_transactionSignature = None,
           r_timestamp = toISOString_now lib (world st)\<rparr>, st1)"
  using assms
  by (simp add: updateNFTMetadata_def updateNFTMetadata_try_def retry_fetch)

lemma update_same:
  assumes "PublicKey_of_string lib (mint m) = Inr mk" "0 \<le> r"
    and "fetchCurrentMetadata lib mk st = (Some cur, st1)"
    and "updateAuthority cur = publicKey wallet"
    and "\<not> isMetadataDifferent cur m"
  shows "updateNFTMetadata lib wallet m dry r d st =
     (Inr \<lparr>r_mint = mint m, r_status = skipped,
           r_action = Some ''metadata already matches'',
           r_oldValues = None, r_newValues = None, r_error = None,
           r_transactionSignature = None,
           r_timestamp = toISOString_now lib (world st)\<rparr>, st1)"
  using assms
  by (simp add: updateNFTMetadata_def updateNFTMetadata_try_def retry_fetch)

lemma update_dry:
  assumes "PublicKey_of_string lib (mint m) = Inr mk" "0 \<le> r"
    and "fetchCurrentMetadata lib mk st = (Some cur, st1)"
    and "updateAuthority cur = publicKey wallet"
    and "isMetadataDifferent cur m"
  shows "updateNFTMetadata lib wallet m True r d st =
     (Inr \<lparr>r_mint = mint m, r_status = updated,
           r_action = Some ''dry run - would update'',
           r_oldValues = Some \<lparr>v_name = oc_name cur, v_symbol = oc_symbol cur,
                               v_uri = oc_uri cur\<rparr>,
           r_newValues = Some \<lparr>v_name = name m, v_symbol = symbol m, v_uri = uri m\<rparr>,
           r_error = None, r_transactionSignature = None,
           r_timestamp = toISOString_now lib (world st)\<rparr>, st1)"
  using assms
  by (simp add: updateNFTMetadata_def updateNFTMetadata_try_def retry_fetch)

lemma update_returns:
  "PublicKey_of_string lib (mint m) = Inr mk \<Longrightarrow>
   \<exists>res st'. updateNFTMetadata lib wallet m dry r d st = (Inr res, st') \<and> r_mint res = mint m"
  unfolding updateNFTMetadata_def updateNFTMetadata_try_def Let_def
  by (auto split: sum.splits option.splits prod.splits if_splits)

section \<open>Reading the account layout\<close>

lemma slice_nat:
  "slice xs (int a) (int b) =
     take (min b (length xs) - min a (length xs)) (drop (min a (length xs)) xs)"
  by (simp add: slice_def relative_index_def Let_def)

lemma slice_middle:
  "slice (xs @ ys @ zs) (int (length xs)) (int (length xs + length ys)) = ys"
  by (simp only: slice_nat) simp

lemma le32_value:
  assumes "n < 2 ^ 32"
  shows "unat (of_nat n :: byte) + 2 ^ 8 * unat (of_nat (n div 2 ^ 8) :: byte)
         + 2 ^ 16 * unat (of_nat (n div 2 ^ 16) :: byte)
         + 2 ^ 24 * unat (of_nat (n div 2 ^ 24) :: byte) = n"
proof -
  define a where "a = n div 256"
  define b where "b = a div 256"
  define c where "c = b div 256"
  have u: "unat (of_nat k :: byte) = k mod 256" for k
    by (simp add: unat_of_nat)
  have d8: "n div 256 = a" by (simp add: a_def)
  have d16: "n div 65536 = b"
    unfolding b_def a_def by (simp add: div_mult2_eq[symmetric])
  have d24: "n div 16777216 = c"
    unfolding c_def b_def a_def by (simp add: div_mult2_eq[symmetric])
  have "c < 256" using assms unfolding d24[symmetric] by (simp add: less_mult_imp_div_less)
  then have top: "c mod 256 = c" by simp
  have 1: "n = 256 * a + n mod 256" by (simp add: a_def)
  have 2: "a = 256 * b + a mod 256" by (simp add: b_def)
  have 3: "b = 256 * c + b mod 256" by (simp add: c_def)
  have "n mod 256 + 256 * (a mod 256) + 65536 * (b mod 256) + 16777216 * (c mod 256) = n"
    unfolding top using 1 2 3 by linarith
  then have "n mod 256 + 256 * (n div 256 mod 256) + 65536 * (n div 65536 mod 256)
        + 16777216 * (n div 16777216 mod 256) = n"
    by (simp only: d8 d16 d24)
  moreover have "n div 16777216 mod 256 = n div 16777216"
    using top by (simp only: d24)
  ultimately show ?thesis
    by (simp add: u)
qed

lemma read_written:
  assumes "writeUInt32LE n = Inr bs"
  shows "readUInt32LE (xs @ bs @ ys) (length xs) = Inr n" and "length bs = 4"
proof -
  from assms have n: "n < 2 ^ 32"
    and bs: "bs = [of_nat n, of_nat (n div 2 ^ 8), of_nat (n div 2 ^ 16), of_nat (n div 2 ^ 24)]"
    by (auto simp: writeUInt32LE_def split: if_splits)
  show "length bs = 4" by (simp add: bs)
  show "readUInt32LE (xs @ bs @ ys) (length xs) = Inr n"
    using le32_value[OF n] by (simp add: readUInt32LE_def bs nth_append)
qed


lemma encodeString_Inr:
  assumes "encodeString lib s = Inr enc"
  obtains len where "writeUInt32LE (length (utf8_bytes lib s)) = Inr len"
    and "enc = len @ utf8_bytes lib s" and "length len = 4"
proof -
  from assms obtain len where w: "writeUInt32LE (length (utf8_bytes lib s)) = Inr len"
    and e: "enc = len @ utf8_bytes lib s"
    by (auto simp: encodeString_def Let_def split: sum.splits)
  from read_written(2)[OF w] w e that show thesis by blast
qed

lemma parse_synthetic:
  assumes syn: "syntheticAccountBytes lib key a32 m32 nm symb u rest = Inr raw"
    and la: "length a32 = 32" and lm: "length m32 = 32"
    and pk: "PublicKey_of_bytes lib a32 = Inr k"
  shows "parse_metadata_account lib raw =
     Inr \<lparr>oc_name = decode_text lib (utf8_bytes lib nm),
          oc_symbol = decode_text lib (utf8_bytes lib symb),
          oc_uri = decode_text lib (utf8_bytes lib u),
          updateAuthority = k\<rparr>"
proof -
  from syn obtain en es eu where en: "encodeString lib nm = Inr en"
    and es: "encodeString lib symb = Inr es" and eu: "encodeString lib u = Inr eu"
    and raw: "raw = [key] @ a32 @ m32 @ en @ es @ eu @ rest"
    by (auto simp: syntheticAccountBytes_def split: sum.splits)
  define nb where "nb = utf8_bytes lib nm"
  define sb where "sb = utf8_bytes lib symb"
  define ub where "ub = utf8_bytes lib u"
  from en obtain ln where wn: "writeUInt32LE (length nb) = Inr ln"
    and en': "en = ln @ nb" and ln4: "length ln = 4"
    unfolding nb_def by (rule encodeString_Inr)
  from es obtain ls where ws: "writeUInt32LE (length sb) = Inr ls"
    and es': "es = ls @ sb" and ls4: "length ls = 4"
    unfolding sb_def by (rule encodeString_Inr)
  from eu obtain lu where wu: "writeUInt32LE (length ub) = Inr lu"
    and eu': "eu = lu @ ub" and lu4: "length lu = 4"
    unfolding ub_def by (rule encodeString_Inr)
  define h where "h = [key] @ a32 @ m32"
  have lh: "length h = 65" by (simp add: h_def la lm)
  have auth: "slice raw (int 1) (int (1 + 32)) = a32"
    using slice_middle[of "[key]" a32 "m32 @ en @ es @ eu @ rest"] by (simp add: raw la)
  have r1: "readUInt32LE raw 65 = Inr (length nb)"
    using read_written(1)[OF wn, of h "nb @ es @ eu @ rest"]
    by (simp add: raw h_def en' la lm)
  have s1: "slice raw (int 69) (int (69 + length nb)) = nb"
    using slice_middle[of "h @ ln" nb "es @ eu @ rest"]
    by (simp add: raw h_def en' la lm ln4)
  have r2: "readUInt32LE raw (69 + length nb) = Inr (length sb)"
    using read_written(1)[OF ws, of "h @ ln @ nb" "sb @ eu @ rest"]
    by (simp add: raw h_def en' es' la lm ln4 add_ac)
  have s2: "slice raw (int (73 + length nb)) (int (73 + length nb + length sb)) = sb"
    using slice_middle[of "h @ ln @ nb @ ls" sb "eu @ rest"]
    by (simp add: raw h_def en' es' la lm ln4 ls4 add_ac)
  have r3: "readUInt32LE raw (73 + length nb + length sb) = Inr (length ub)"
    using read_written(1)[OF wu, of "h @ ln @ nb @ ls @ sb" "ub @ rest"]
    by (simp add: raw h_def en' es' eu' la lm ln4 ls4 add_ac)
  have s3: "slice raw (int (77 + length nb + length sb))
              (int (77 + length nb + length sb + length ub)) = ub"
    using slice_middle[of "h @ ln @ nb @ ls @ sb @ lu" ub rest]
    by (simp add: raw h_def en' es' eu' la lm ln4 ls4 lu4 add_ac)
  show ?thesis
    using auth r1 s1 r2 s2 r3 s3
    by (simp add: parse_metadata_account_def Let_def pk nb_def sb_def ub_def
          add_ac)
qed

section \<open>Round trip of the codec\<close>

lemma sim_utf8_roundtrip: "sim_utf8_string (sim_utf8_bytes s) = s"
proof -
  have "char_of (unat (of_nat (of_char c) :: byte)) = c" for c :: char
  proof -
    have "(of_char c :: nat) < 256" by simp
    then have "unat (of_nat (of_char c) :: byte) = of_char c"
      by (simp add: unat_of_nat)
    then show ?thesis by simp
  qed
  then show ?thesis
    by (simp add: sim_utf8_string_def sim_utf8_bytes_def map_idI)
qed

lemma sim_lib_simps:
  "PublicKey_of_string sim_lib = sim_PublicKey_of_string"
  "PublicKey_of_bytes sim_lib = sim_PublicKey_of_bytes"
  "toBuffer sim_lib = sim_toBuffer"
  "toBase58 sim_lib = (\<lambda>k. bs58_encode (sim_toBuffer k))"
  "utf8_bytes sim_lib = sim_utf8_bytes"
  "utf8_string sim_lib = sim_utf8_string"
  "getAccountInfo sim_lib = sim_getAccountInfo"
  "toISOString_now sim_lib = clock"
  "TOKEN_METADATA_PROGRAM_ID sim_lib = sim_program_id"
  "findProgramAddressSync sim_lib = (\<lambda>seeds program. Inr (sim_address seeds, 255))"
  "sendAndConfirmTransaction sim_lib = (\<lambda>transaction signers w. (Inr ''signature'', w))"
  by (simp_all add: sim_lib_def)

lemma bn_small: "bn_of_bytes (replicate n 0 @ [b]) = unat b"
proof -
  have "foldl (\<lambda>a b. 256 * a + unat b) 0 (replicate n (0::byte)) = 0"
    by (induction n) simp_all
  then show ?thesis by (simp add: bn_of_bytes_def)
qed

lemma sim_key_of_bytes: "PublicKey_of_bytes sim_lib (replicate 31 0 @ [9]) = Inr 9"
  by (simp add: sim_lib_simps sim_PublicKey_of_bytes_def bn_small)

lemma remove_nul_trailing:
  assumes "CHR 0x00 \<notin> set (strip_trailing_nul s)"
  shows "remove_nul s = strip_trailing_nul s"
proof -
  let ?P = "\<lambda>c. c = CHR 0x00"
  have s: "s = rev (dropWhile ?P (rev s)) @ rev (takeWhile ?P (rev s))"
    by (metis rev_append rev_rev_ident takeWhile_dropWhile_id)
  have 1: "filter (\<lambda>c. c \<noteq> CHR 0x00) (rev (takeWhile ?P (rev s))) = []"
    by (auto simp: filter_empty_conv dest: set_takeWhileD)
  have 2: "filter (\<lambda>c. c \<noteq> CHR 0x00) (rev (dropWhile ?P (rev s))) = rev (dropWhile ?P (rev s))"
    using assms by (auto simp: strip_trailing_nul_def filter_id_conv)
  have "remove_nul s = filter (\<lambda>c. c \<noteq> CHR 0x00) (rev (dropWhile ?P (rev s)) @ rev (takeWhile ?P (rev s)))"
    unfolding remove_nul_def using s by simp
  also have "\<dots> = rev (dropWhile ?P (rev s))"
    unfolding filter_append 1 2 by simp
  finally show ?thesis by (simp add: strip_trailing_nul_def)
qed

lemma synthetic_exists:
  assumes "length (utf8_bytes lib nm) < 2 ^ 32" "length (utf8_bytes lib symb) < 2 ^ 32"
    "length (utf8_bytes lib u) < 2 ^ 32"
  shows "\<exists>raw. syntheticAccountBytes lib key a32 m32 nm symb u rest = Inr raw"
  using assms
  by (simp add: syntheticAccountBytes_def encodeString_def writeUInt32LE_def Let_def)

text \<open>
  C6, amended. For strings whose UTF-8 encodings are shorter than \<open>2 ^ 32\<close> bytes and
  decode back to themselves, the synthetic account built with \<open>encodeString\<close> exists, and
  decoding it (by the parse alone, or by \<open>fetchCurrentMetadata\<close> when the connection
  returns it) recovers each string with every NUL removed, together with the authority.
  Where a string has no NUL before its trailing padding, this is the string with its
  trailing NUL padding stripped.
\<close>

theorem decode_synthetic_account:
  assumes "length (utf8_bytes lib nm) < 2 ^ 32" "length (utf8_bytes lib symb) < 2 ^ 32"
    "length (utf8_bytes lib u) < 2 ^ 32"
    and "utf8_string lib (utf8_bytes lib nm) = nm"
    and "utf8_string lib (utf8_bytes lib symb) = symb"
    and "utf8_string lib (utf8_bytes lib u) = u"
    and "length a32 = 32" "length m32 = 32" "PublicKey_of_bytes lib a32 = Inr k"
  shows "\<exists>raw. syntheticAccountBytes lib key a32 m32 nm symb u rest = Inr raw
           \<and> parse_metadata_account lib raw =
               Inr \<lparr>oc_name = remove_nul nm, oc_symbol = remove_nul symb,
                    oc_uri = remove_nul u, updateAuthority = k\<rparr>
           \<and> (\<forall>mk a st w'. getMetadataAccount lib mk = Inr a
                 \<and> getAccountInfo lib a (world st) = (Inr (Some \<lparr>acc_data = raw\<rparr>), w')
                 \<longrightarrow> fst (fetchCurrentMetadata lib mk st) =
                       Some \<lparr>oc_name = remove_nul nm, oc_symbol = remove_nul symb,
                             oc_uri = remove_nul u, updateAuthority = k\<rparr>)
           \<and> (CHR 0x00 \<notin> set (strip_trailing_nul nm) \<longrightarrow> remove_nul nm = strip_trailing_nul nm)
           \<and> (CHR 0x00 \<notin> set (strip_trailing_nul symb)
                 \<longrightarrow> remove_nul symb = strip_trailing_nul symb)
           \<and> (CHR 0x00 \<notin> set (strip_trailing_nul u) \<longrightarrow> remove_nul u = strip_trailing_nul u)"
proof -
  from synthetic_exists[OF assms(1-3)] obtain raw
    where raw: "syntheticAccountBytes lib key a32 m32 nm symb u rest = Inr raw" by blast
  have p: "parse_metadata_account lib raw =
               Inr \<lparr>oc_name = remove_nul nm, oc_symbol = remove_nul symb,
                    oc_uri = remove_nul u, updateAuthority = k\<rparr>"
    using parse_synthetic[OF raw assms(7-9)]
    by (simp add: decode_text_def remove_nul_def assms(4-6))
  have f: "fst (fetchCurrentMetadata lib mk st) =
                       Some \<lparr>oc_name = remove_nul nm, oc_symbol = remove_nul symb,
                             oc_uri = remove_nul u, updateAuthority = k\<rparr>"
    if "getMetadataAccount lib mk = Inr a
        \<and> getAccountInfo lib a (world st) = (Inr (Some \<lparr>acc_data = raw\<rparr>), w')"
    for mk a st w'
    using that fetch_present[of lib mk a st "\<lparr>acc_data = raw\<rparr>" w'] by (simp add: p)
  from raw p f remove_nul_trailing show ?thesis by blast
qed

theorem decode_synthetic_account_witness:
  "length (utf8_bytes sim_lib (''Doge'' @ [CHR 0x00, CHR 0x00])) < 2 ^ 32
   \<and> utf8_string sim_lib (utf8_bytes sim_lib (''Doge'' @ [CHR 0x00, CHR 0x00]))
       = ''Doge'' @ [CHR 0x00, CHR 0x00]
   \<and> PublicKey_of_bytes sim_lib (replicate 31 0 @ [9]) = Inr 9
   \<and> (\<exists>raw. syntheticAccountBytes sim_lib 4 (replicate 31 0 @ [9]) (replicate 32 0)
                (''Doge'' @ [CHR 0x00, CHR 0x00]) ''DOGE'' ''https://x.io/1'' [] = Inr raw
          \<and> parse_metadata_account sim_lib raw =
              Inr \<lparr>oc_name = ''Doge'', oc_symbol = ''DOGE'', oc_uri = ''https://x.io/1'',
                   updateAuthority = 9\<rparr>)"
proof -
  have l: "length (utf8_bytes sim_lib s) < 2 ^ 32" if "length s < 100" for s
    using that by (simp add: sim_lib_simps sim_utf8_bytes_def)
  have r: "utf8_string sim_lib (utf8_bytes sim_lib s) = s" for s
    by (simp add: sim_lib_simps sim_utf8_roundtrip)
  from decode_synthetic_account[of sim_lib "''Doge'' @ [CHR 0x00, CHR 0x00]" "''DOGE''"
      "''https://x.io/1''" "replicate 31 0 @ [9]" "replicate 32 0" 9 4 "[]",
      OF l l l r r r _ _ sim_key_of_bytes]
  obtain raw where "syntheticAccountBytes sim_lib 4 (replicate 31 0 @ [9]) (replicate 32 0)
                (''Doge'' @ [CHR 0x00, CHR 0x00]) ''DOGE'' ''https://x.io/1'' [] = Inr raw"
    and "parse_metadata_account sim_lib raw =
              Inr \<lparr>oc_name = remove_nul (''Doge'' @ [CHR 0x00, CHR 0x00]),
                   oc_symbol = remove_nul ''DOGE'', oc_uri = remove_nul ''https://x.io/1'',
                   updateAuthority = 9\<rparr>"
    by auto
  moreover have "remove_nul (''Doge'' @ [CHR 0x00, CHR 0x00]) = ''Doge''"
    "remove_nul ''DOGE'' = ''DOGE''" "remove_nul ''https://x.io/1'' = ''https://x.io/1''"
    by (simp_all add: remove_nul_def)
  ultimately show ?thesis
    using l[of "''Doge'' @ [CHR 0x00, CHR 0x00]"] r sim_key_of_bytes by auto
qed

text \<open>
  C6 as stated fails on a name with a NUL inside: the account built from the name
  \<open>a\<close>, NUL, \<open>b\<close> decodes to the name \<open>ab\<close>, while stripping the trailing NUL padding of
  the original leaves it as it is.
\<close>

theorem decode_strips_every_nul_counterexample:
  "syntheticAccountBytes sim_lib 4 (replicate 31 0 @ [9]) (replicate 32 0)
      [CHR ''a'', CHR 0x00, CHR ''b''] ''S'' ''u'' []
     = Inr ([4] @ replicate 31 0 @ [9] @ replicate 32 0
            @ [3, 0, 0, 0, 97, 0, 98] @ [1, 0, 0, 0, 83] @ [1, 0, 0, 0, 117])
   \<and> parse_metadata_account sim_lib
        ([4] @ replicate 31 0 @ [9] @ replicate 32 0
         @ [3, 0, 0, 0, 97, 0, 98] @ [1, 0, 0, 0, 83] @ [1, 0, 0, 0, 117])
     = Inr \<lparr>oc_name = ''ab'', oc_symbol = ''S'', oc_uri = ''u'', updateAuthority = 9\<rparr>
   \<and> strip_trailing_nul [CHR ''a'', CHR 0x00, CHR ''b''] = [CHR ''a'', CHR 0x00, CHR ''b'']"
proof -
  have syn: "syntheticAccountBytes sim_lib 4 (replicate 31 0 @ [9]) (replicate 32 0)
      [CHR ''a'', CHR 0x00, CHR ''b''] ''S'' ''u'' []
     = Inr ([4] @ replicate 31 0 @ [9] @ replicate 32 0
            @ [3, 0, 0, 0, 97, 0, 98] @ [1, 0, 0, 0, 83] @ [1, 0, 0, 0, 117])"
    by (simp add: syntheticAccountBytes_def encodeString_def writeUInt32LE_def
          sim_lib_simps sim_utf8_bytes_def)
  have "parse_metadata_account sim_lib
        ([4] @ replicate 31 0 @ [9] @ replicate 32 0
         @ [3, 0, 0, 0, 97, 0, 98] @ [1, 0, 0, 0, 83] @ [1, 0, 0, 0, 117])
     = Inr \<lparr>oc_name = ''ab'', oc_symbol = ''S'', oc_uri = ''u'', updateAuthority = 9\<rparr>"
    using parse_synthetic[OF syn _ _ sim_key_of_bytes]
    by (simp add: decode_text_def sim_lib_simps sim_utf8_roundtrip)
  moreover have "strip_trailing_nul [CHR ''a'', CHR 0x00, CHR ''b''] = [CHR ''a'', CHR 0x00, CHR ''b'']"
    by (simp add: strip_trailing_nul_def)
  ultimately show ?thesis using syn by simp
qed


section \<open>Account data that is too short\<close>

text \<open>
  C9 as stated fails at the last computed offset: an account of 79 bytes whose uri is
  announced with 5 bytes, so that the uri would end at offset 82, is decoded, with the 2
  bytes that are there as its uri.
\<close>

theorem decode_truncated_uri_counterexample:
  "length ([4] @ replicate 31 0 @ [9] @ replicate 32 0
           @ [0, 0, 0, 0] @ [0, 0, 0, 0] @ [5, 0, 0, 0, 97, 98] :: byte list) < 77 + 0 + 0 + 5
   \<and> parse_metadata_account sim_lib
        ([4] @ replicate 31 0 @ [9] @ replicate 32 0
         @ [0, 0, 0, 0] @ [0, 0, 0, 0] @ [5, 0, 0, 0, 97, 98])
     = Inr \<lparr>oc_name = [], oc_symbol = [], oc_uri = ''ab'', updateAuthority = 9\<rparr>"
proof -
  have c: "char_of (97::nat) = CHR ''a''" "char_of (98::nat) = CHR ''b''"
    by code_simp+
  show ?thesis
    by (simp add: parse_metadata_account_def Let_def readUInt32LE_def slice_def
        relative_index_def nth_append sim_lib_simps sim_PublicKey_of_bytes_def bn_small
        decode_text_def sim_utf8_string_def c)
qed


lemma read_fails_iff: "isl (readUInt32LE buf off) \<longleftrightarrow> length buf < off + 4"
  by (auto simp: readUInt32LE_def)

lemma read_u32_at: "readUInt32LE buf off = Inr n \<Longrightarrow> u32_at buf off = n"
  by (simp add: u32_at_def)

lemma parse_short:
  assumes "length raw < 69 \<or> length raw < 73 + u32_at raw 65
           \<or> length raw < 77 + u32_at raw 65 + u32_at raw (69 + u32_at raw 65)"
  shows "isl (parse_metadata_account lib raw)"
proof (cases "PublicKey_of_bytes lib (slice raw (int 1) (int (1 + 32)))")
  case (Inl e)
  then show ?thesis by (simp add: parse_metadata_account_def)
next
  case pk: (Inr k)
  show ?thesis
  proof (cases "readUInt32LE raw 65")
    case (Inl e)
    then show ?thesis using pk by (simp add: parse_metadata_account_def)
  next
    case n: (Inr n)
    have un: "u32_at raw 65 = n" by (rule read_u32_at[OF n])
    have l1: "\<not> length raw < 69" using read_fails_iff[of raw 65] n by simp
    show ?thesis
    proof (cases "readUInt32LE raw (69 + n)")
      case (Inl e)
      then show ?thesis using pk n by (simp add: parse_metadata_account_def add_ac)
    next
      case s: (Inr s)
      have us: "u32_at raw (69 + n) = s" by (rule read_u32_at[OF s])
      have l2: "\<not> length raw < 73 + n" using read_fails_iff[of raw "69 + n"] s by simp
      from assms l1 l2 have "length raw < 77 + n + s" by (simp add: un us)
      then have "isl (readUInt32LE raw (73 + n + s))"
        by (simp add: read_fails_iff)
      then obtain e where "readUInt32LE raw (73 + n + s) = Inl e"
        by (cases "readUInt32LE raw (73 + n + s)") simp_all
      then show ?thesis using pk n s
        by (simp add: parse_metadata_account_def add_ac)
    qed
  qed
qed

text \<open>
  C9, amended. Decoding fails for every account data shorter than 69 bytes (the end of the
  name's length prefix), shorter than the end of the symbol's length prefix, or shorter
  than the end of the uri's length prefix: the parse throws, and \<open>fetchCurrentMetadata\<close>
  returns \<open>null\<close> for an account with such data.
\<close>

theorem decode_short_fails:
  assumes "length raw < 69 \<or> length raw < 73 + u32_at raw 65
           \<or> length raw < 77 + u32_at raw 65 + u32_at raw (69 + u32_at raw 65)"
  shows "isl (parse_metadata_account lib raw)
         \<and> (\<forall>mk a st w'. getMetadataAccount lib mk = Inr a
               \<and> getAccountInfo lib a (world st) = (Inr (Some \<lparr>acc_data = raw\<rparr>), w')
               \<longrightarrow> fst (fetchCurrentMetadata lib mk st) = None)"
proof -
  have p: "isl (parse_metadata_account lib raw)" by (rule parse_short[OF assms])
  then obtain e where e: "parse_metadata_account lib raw = Inl e"
    by (cases "parse_metadata_account lib raw") simp_all
  have "fst (fetchCurrentMetadata lib mk st) = None"
    if "getMetadataAccount lib mk = Inr a
        \<and> getAccountInfo lib a (world st) = (Inr (Some \<lparr>acc_data = raw\<rparr>), w')"
    for mk a st w'
    using that fetch_present[of lib mk a st "\<lparr>acc_data = raw\<rparr>" w'] by (simp add: e)
  with p show ?thesis by blast
qed

lemma sim_metadata_account: "getMetadataAccount sim_lib k = Inr (sim_metadata_address k)"
  by (simp add: getMetadataAccount_def sim_lib_simps sim_metadata_address_def)

theorem decode_short_fails_witness:
  "length ([4] @ replicate 31 0 @ [9] @ replicate 32 0 @ [200, 0, 0, 0, 97, 98] :: byte list)
     < 73 + u32_at ([4] @ replicate 31 0 @ [9] @ replicate 32 0 @ [200, 0, 0, 0, 97, 98]) 65
   \<and> isl (parse_metadata_account sim_lib
            ([4] @ replicate 31 0 @ [9] @ replicate 32 0 @ [200, 0, 0, 0, 97, 98]))
   \<and> fst (fetchCurrentMetadata sim_lib 1
            (sim_start \<lparr>ledger = (\<lambda>a. Some ([4] @ replicate 31 0 @ [9] @ replicate 32 0
                                            @ [200, 0, 0, 0, 97, 98])),
                        outages = 0, clock = ''2024-01-01T00:00:00.000Z''\<rparr>)) = None"
proof -
  let ?raw = "[4] @ replicate 31 0 @ [9] @ replicate 32 0 @ [200, 0, 0, 0, 97, 98] :: byte list"
  let ?st = "sim_start \<lparr>ledger = (\<lambda>a. Some ?raw), outages = 0,
                        clock = ''2024-01-01T00:00:00.000Z''\<rparr>"
  have u: "u32_at ?raw 65 = 200"
    by (simp add: u32_at_def readUInt32LE_def nth_append)
  have h: "length ?raw < 69 \<or> length ?raw < 73 + u32_at ?raw 65
           \<or> length ?raw < 77 + u32_at ?raw 65 + u32_at ?raw (69 + u32_at ?raw 65)"
    by (simp add: u)
  have g: "getAccountInfo sim_lib (sim_metadata_address 1) (world ?st)
             = (Inr (Some \<lparr>acc_data = ?raw\<rparr>), world ?st)"
    by (simp add: sim_lib_simps sim_getAccountInfo_def sim_start_def)
  note t = decode_short_fails[OF h, of sim_lib]
  have a: "isl (parse_metadata_account sim_lib ?raw)" using t by blast
  have b: "fst (fetchCurrentMetadata sim_lib 1 ?st) = None"
    using t sim_metadata_account[of 1] g by blast
  have c: "length ?raw < 73 + u32_at ?raw 65" unfolding u by simp
  from a b c show ?thesis by blast
qed

section \<open>The library and world of the examples\<close>

lemma doge_account_synthetic:
  "syntheticAccountBytes sim_lib 4 (replicate 31 0 @ [9]) (replicate 32 0)
     (''Doge'' @ [CHR 0x00, CHR 0x00]) ''DOGE'' ''u://1'' [] = Inr doge_account"
  by (simp add: syntheticAccountBytes_def encodeString_def writeUInt32LE_def
        sim_lib_simps sim_utf8_bytes_def doge_account_def)

lemma parse_doge_account:
  "parse_metadata_account sim_lib doge_account =
     Inr \<lparr>oc_name = ''Doge'', oc_symbol = ''DOGE'', oc_uri = ''u://1'', updateAuthority = 9\<rparr>"
  using parse_synthetic[OF doge_account_synthetic _ _ sim_key_of_bytes]
  by (simp add: decode_text_def sim_lib_simps sim_utf8_roundtrip)

lemma sim_mints:
  "PublicKey_of_string sim_lib mint_A = Inr 1"
  "PublicKey_of_string sim_lib mint_B = Inr 2"
  "PublicKey_of_string sim_lib mint_C = Inr 3"
  "PublicKey_of_string sim_lib mint_D = Inr 4"
  "PublicKey_of_string sim_lib ''not-a-mint'' = Inl (Error ''Non-base58 character'')"
proof -
  have "sim_PublicKey_of_string mint_A = Inr 1" by code_simp
  moreover have "sim_PublicKey_of_string mint_B = Inr 2" by code_simp
  moreover have "sim_PublicKey_of_string mint_C = Inr 3" by code_simp
  moreover have "sim_PublicKey_of_string mint_D = Inr 4" by code_simp
  moreover have "sim_PublicKey_of_string ''not-a-mint'' = Inl (Error ''Non-base58 character'')"
    by code_simp
  ultimately show
    "PublicKey_of_string sim_lib mint_A = Inr 1"
    "PublicKey_of_string sim_lib mint_B = Inr 2"
    "PublicKey_of_string sim_lib mint_C = Inr 3"
    "PublicKey_of_string sim_lib mint_D = Inr 4"
    "PublicKey_of_string sim_lib ''not-a-mint'' = Inl (Error ''Non-base58 character'')"
    by (simp_all add: sim_lib_simps)
qed

lemma sim_base58:
  "bs58_encode (sim_toBuffer 8) = ''11111111111111111111111111111119''"
  "bs58_encode (sim_toBuffer 9) = ''1111111111111111111111111111111A''"
  by code_simp+

lemma sim_fetch_down:
  "fetchCurrentMetadata sim_lib k (sim_start (sim_world_of acct (Suc n))) =
     (None, (sim_start (sim_world_of acct n))\<lparr>fetched := [sim_metadata_address k]\<rparr>)"
  using fetch_throw[of sim_lib k "sim_metadata_address k" "sim_start (sim_world_of acct (Suc n))"
      "Error ''fetch failed''" "sim_world_of acct n"]
  by (simp add: sim_metadata_account sim_lib_simps sim_getAccountInfo_def sim_start_def
        sim_world_of_def)

lemma sim_fetch_doge:
  "world st = sim_world_of (Some doge_account) 0 \<Longrightarrow>
   fetchCurrentMetadata sim_lib k st =
     (Some \<lparr>oc_name = ''Doge'', oc_symbol = ''DOGE'', oc_uri = ''u://1'', updateAuthority = 9\<rparr>,
      st\<lparr>fetched := fetched st @ [sim_metadata_address k]\<rparr>)"
  using fetch_present[of sim_lib k "sim_metadata_address k" st "\<lparr>acc_data = doge_account\<rparr>"
      "world st"]
  by (simp add: sim_metadata_account sim_lib_simps sim_getAccountInfo_def sim_world_of_def
        parse_doge_account)

lemma sim_fetch_absent:
  "world st = sim_world_of None 0 \<Longrightarrow>
   fetchCurrentMetadata sim_lib k st = (None, st\<lparr>fetched := fetched st @ [sim_metadata_address k]\<rparr>)"
  using fetch_absent[of sim_lib k "sim_metadata_address k" st "world st"]
  by (simp add: sim_metadata_account sim_lib_simps sim_getAccountInfo_def sim_world_of_def)

lemma sim_dry_update:
  "updateNFTMetadata sim_lib (sim_wallet 9) (target mint_A ''Doge #1'') True 3 1000
        (sim_start (sim_world_of (Some doge_account) 0)) =
       (Inr \<lparr>r_mint = mint_A, r_status = updated, r_action = Some ''dry run - would update'',
             r_oldValues = Some \<lparr>v_name = ''Doge'', v_symbol = ''DOGE'', v_uri = ''u://1''\<rparr>,
             r_newValues = Some \<lparr>v_name = ''Doge #1'', v_symbol = ''DOGE'', v_uri = ''u://1''\<rparr>,
             r_error = None, r_transactionSignature = None,
             r_timestamp = ''2024-01-01T00:00:00.000Z''\<rparr>,
        (sim_start (sim_world_of (Some doge_account) 0))\<lparr>fetched := [sim_metadata_address 1]\<rparr>)"
proof -
  let ?st = "sim_start (sim_world_of (Some doge_account) 0)"
  let ?cur = "\<lparr>oc_name = ''Doge'', oc_symbol = ''DOGE'', oc_uri = ''u://1'',
               updateAuthority = (9::nat)\<rparr>"
  have p: "PublicKey_of_string sim_lib (mint (target mint_A ''Doge #1'')) = Inr 1"
    by (simp add: target_def sim_mints)
  have f: "fetchCurrentMetadata sim_lib 1 ?st = (Some ?cur, ?st\<lparr>fetched := [sim_metadata_address 1]\<rparr>)"
    using sim_fetch_doge[of ?st 1] by (simp add: sim_start_def)
  have eq: "updateAuthority ?cur = publicKey (sim_wallet 9)"
    by (simp add: sim_wallet_def)
  have d1: "isMetadataDifferent ?cur (target mint_A ''Doge #1'')"
    by (simp add: isMetadataDifferent_def target_def trim_def isWhiteSpace_def)
  from update_dry[OF p _ f eq d1, of 3 1000]
  show ?thesis
    by (simp add: target_def sim_lib_simps sim_start_def sim_world_of_def)
qed

section \<open>The authority gate\<close>

lemma fetch_submitted:
  "submitted (snd (fetchCurrentMetadata lib mk st)) = submitted st"
  "slept (snd (fetchCurrentMetadata lib mk st)) = slept st"
proof -
  obtain c st1 where f: "fetchCurrentMetadata lib mk st = (c, st1)"
    by (cases "fetchCurrentMetadata lib mk st")
  from fetch_frame[OF f]
  show "submitted (snd (fetchCurrentMetadata lib mk st)) = submitted st"
    "slept (snd (fetchCurrentMetadata lib mk st)) = slept st"
    by (auto simp: f)
qed

text \<open>
  C5. When the record that the fetch decodes names an authority other than the wallet's
  public key, \<open>updateNFTMetadata\<close> returns at once a result of status \<open>error\<close> whose reason
  names the expected key (the wallet's) and the key found, in the state the single fetch
  left: nothing was submitted, the process did not sleep for a retry, and
  \<open>getAccountInfo\<close> was called exactly once.
\<close>

theorem authority_mismatch_is_final:
  assumes "PublicKey_of_string lib (mint m) = Inr mk" and "0 \<le> r"
    and "fetchCurrentMetadata lib mk st = (Some cur, st1)"
    and "updateAuthority cur \<noteq> publicKey wallet"
  shows "updateNFTMetadata lib wallet m dry r d st =
           (Inr \<lparr>r_mint = mint m, r_status = error, r_action = None,
                 r_oldValues = None, r_newValues = None,
                 r_error = Some (''Update authority mismatch. Expected: ''
                                 @ toBase58 lib (publicKey wallet) @ '', Found: ''
                                 @ toBase58 lib (updateAuthority cur)),
                 r_transactionSignature = None,
                 r_timestamp = toISOString_now lib (world st)\<rparr>, st1)
         \<and> submitted st1 = submitted st \<and> slept st1 = slept st
         \<and> (\<exists>a. fetched st1 = fetched st @ [a])"
proof -
  from fetch_frame[OF assms(3)] obtain w' a
    where "st1 = st\<lparr>world := w', fetched := fetched st @ [a]\<rparr>" by auto
  then have "submitted st1 = submitted st" "slept st1 = slept st"
    "fetched st1 = fetched st @ [a]" by simp_all
  with update_mismatch[OF assms] show ?thesis by blast
qed

theorem authority_mismatch_is_final_witness:
  "PublicKey_of_string sim_lib (mint (target mint_A ''Doge #1'')) = Inr 1
   \<and> fetchCurrentMetadata sim_lib 1 (sim_start (sim_world_of (Some doge_account) 0)) =
       (Some \<lparr>oc_name = ''Doge'', oc_symbol = ''DOGE'', oc_uri = ''u://1'', updateAuthority = 9\<rparr>,
        (sim_start (sim_world_of (Some doge_account) 0))\<lparr>fetched := [sim_metadata_address 1]\<rparr>)
   \<and> updateNFTMetadata sim_lib (sim_wallet 8) (target mint_A ''Doge #1'') False 3 1000
        (sim_start (sim_world_of (Some doge_account) 0)) =
       (Inr \<lparr>r_mint = mint_A, r_status = error, r_action = None,
             r_oldValues = None, r_newValues = None,
             r_error = Some (''Update authority mismatch. ''
                             @ ''Expected: 11111111111111111111111111111119, ''
                             @ ''Found: 1111111111111111111111111111111A''),
             r_transactionSignature = None, r_timestamp = ''2024-01-01T00:00:00.000Z''\<rparr>,
        (sim_start (sim_world_of (Some doge_account) 0))\<lparr>fetched := [sim_metadata_address 1]\<rparr>)"
proof -
  let ?st = "sim_start (sim_world_of (Some doge_account) 0)"
  have p: "PublicKey_of_string sim_lib (mint (target mint_A ''Doge #1'')) = Inr 1"
    by (simp add: target_def sim_mints)
  have f: "fetchCurrentMetadata sim_lib 1 ?st =
       (Some \<lparr>oc_name = ''Doge'', oc_symbol = ''DOGE'', oc_uri = ''u://1'', updateAuthority = 9\<rparr>,
        ?st\<lparr>fetched := [sim_metadata_address 1]\<rparr>)"
    using sim_fetch_doge[of ?st 1] by (simp add: sim_start_def)
  have ne: "updateAuthority \<lparr>oc_name = ''Doge'', oc_symbol = ''DOGE'', oc_uri = ''u://1'',
                updateAuthority = (9::nat)\<rparr> \<noteq> publicKey (sim_wallet 8)"
    by (simp add: sim_wallet_def)
  from authority_mismatch_is_final[OF p _ f ne, of 3 False 1000]
  have "updateNFTMetadata sim_lib (sim_wallet 8) (target mint_A ''Doge #1'') False 3 1000 ?st =
       (Inr \<lparr>r_mint = mint_A, r_status = error, r_action = None,
             r_oldValues = None, r_newValues = None,
             r_error = Some (''Update authority mismatch. ''
                             @ ''Expected: 11111111111111111111111111111119, ''
                             @ ''Found: 1111111111111111111111111111111A''),
             r_transactionSignature = None, r_timestamp = ''2024-01-01T00:00:00.000Z''\<rparr>,
        ?st\<lparr>fetched := [sim_metadata_address 1]\<rparr>)"
    by (simp add: target_def sim_wallet_def sim_base58 sim_lib_simps sim_start_def
          sim_world_of_def)
  with p f show ?thesis by blast
qed

section \<open>Dry runs\<close>

lemma dry_run_submits_nothing:
  "submitted (snd (updateNFTMetadata lib wallet m True r d st)) = submitted st"
proof (cases "PublicKey_of_string lib (mint m)")
  case (Inl e)
  then show ?thesis by (simp add: updateNFTMetadata_def)
next
  case (Inr mk)
  show ?thesis
  proof (cases "0 \<le> r")
    case False
    then have "r < 0" by simp
    then show ?thesis using Inr
      by (simp add: updateNFTMetadata_def updateNFTMetadata_try_def retry_negative)
  next
    case True
    obtain c st1 where f: "fetchCurrentMetadata lib mk st = (c, st1)"
      by (cases "fetchCurrentMetadata lib mk st")
    have s1: "submitted st1 = submitted st"
      using fetch_submitted(1)[of lib mk st] by (simp add: f)
    show ?thesis
    proof (cases c)
      case None
      with update_not_fetched[OF Inr True, of st st1 wallet True d] f s1 show ?thesis by simp
    next
      case (Some cur)
      note f' = f[unfolded Some]
      show ?thesis
      proof (cases "updateAuthority cur = publicKey wallet")
        case False
        with update_mismatch[OF Inr True f', of wallet True d] s1 show ?thesis by simp
      next
        case same: True
        show ?thesis
        proof (cases "isMetadataDifferent cur m")
          case True
          with update_dry[OF Inr \<open>0 \<le> r\<close> f' same, of d] s1 show ?thesis by simp
        next
          case False
          with update_same[OF Inr \<open>0 \<le> r\<close> f' same, of True d] s1 show ?thesis by simp
        qed
      qed
    qed
  qed
qed

text \<open>
  C7. In a dry run \<open>updateNFTMetadata\<close> submits nothing, whatever the record, the wallet
  and the world. Where the fetch decodes a record whose authority is the wallet's key, the
  result is \<open>updated\<close> with the action \<open>dry run - would update\<close>, the decoded strings as old
  values, the target's strings as new values and no signature when \<open>isMetadataDifferent\<close>
  holds, and \<open>skipped\<close> otherwise.
\<close>

theorem dry_run_is_pure:
  assumes "PublicKey_of_string lib (mint m) = Inr mk" and "0 \<le> r"
    and "fetchCurrentMetadata lib mk st = (Some cur, st1)"
    and "updateAuthority cur = publicKey wallet"
  shows "updateNFTMetadata lib wallet m True r d st =
           (Inr (if isMetadataDifferent cur m
                 then \<lparr>r_mint = mint m, r_status = updated,
                       r_action = Some ''dry run - would update'',
                       r_oldValues = Some \<lparr>v_name = oc_name cur, v_symbol = oc_symbol cur,
                                           v_uri = oc_uri cur\<rparr>,
                       r_newValues = Some \<lparr>v_name = name m, v_symbol = symbol m,
                                           v_uri = uri m\<rparr>,
                       r_error = None, r_transactionSignature = None,
                       r_timestamp = toISOString_now lib (world st)\<rparr>
                 else \<lparr>r_mint = mint m, r_status = skipped,
                       r_action = Some ''metadata already matches'',
                       r_oldValues = None, r_newValues = None, r_error = None,
                       r_transactionSignature = None,
                       r_timestamp = toISOString_now lib (world st)\<rparr>), st1)
         \<and> submitted st1 = submitted st
         \<and> (\<forall>lib' wallet' m' r' d' st'.
               submitted (snd (updateNFTMetadata lib' wallet' m' True r' d' st'))
                 = submitted st')"
proof -
  have 1: "updateNFTMetadata lib wallet m True r d st =
           (Inr (if isMetadataDifferent cur m
                 then \<lparr>r_mint = mint m, r_status = updated,
                       r_action = Some ''dry run - would update'',
                       r_oldValues = Some \<lparr>v_name = oc_name cur, v_symbol = oc_symbol cur,
                                           v_uri = oc_uri cur\<rparr>,
                       r_newValues = Some \<lparr>v_name = name m, v_symbol = symbol m,
                                           v_uri = uri m\<rparr>,
                       r_error = None, r_transactionSignature = None,
                       r_timestamp = toISOString_now lib (world st)\<rparr>
                 else \<lparr>r_mint = mint m, r_status = skipped,
                       r_action = Some ''metadata already matches'',
                       r_oldValues = None, r_newValues = None, r_error = None,
                       r_transactionSignature = None,
                       r_timestamp = toISOString_now lib (world st)\<rparr>), st1)"
    using update_dry[OF assms] update_same[OF assms, of True d]
    by (cases "isMetadataDifferent cur m") simp_all
  have 2: "submitted st1 = submitted st"
    using fetch_submitted(1)[of lib mk st] by (simp add: assms(3))
  from 1 2 dry_run_submits_nothing show ?thesis by blast
qed

theorem dry_run_is_pure_witness:
  "updateNFTMetadata sim_lib (sim_wallet 9) (target mint_A ''Doge #1'') True 3 1000
        (sim_start (sim_world_of (Some doge_account) 0)) =
       (Inr \<lparr>r_mint = mint_A, r_status = updated, r_action = Some ''dry run - would update'',
             r_oldValues = Some \<lparr>v_name = ''Doge'', v_symbol = ''DOGE'', v_uri = ''u://1''\<rparr>,
             r_newValues = Some \<lparr>v_name = ''Doge #1'', v_symbol = ''DOGE'', v_uri = ''u://1''\<rparr>,
             r_error = None, r_transactionSignature = None,
             r_timestamp = ''2024-01-01T00:00:00.000Z''\<rparr>,
        (sim_start (sim_world_of (Some doge_account) 0))\<lparr>fetched := [sim_metadata_address 1]\<rparr>)
   \<and> updateNFTMetadata sim_lib (sim_wallet 9) (target mint_A '' Doge '') True 3 1000
        (sim_start (sim_world_of (Some doge_account) 0)) =
       (Inr \<lparr>r_mint = mint_A, r_status = skipped, r_action = Some ''metadata already matches'',
             r_oldValues = None, r_newValues = None, r_error = None,
             r_transactionSignature = None, r_timestamp = ''2024-01-01T00:00:00.000Z''\<rparr>,
        (sim_start (sim_world_of (Some doge_account) 0))\<lparr>fetched := [sim_metadata_address 1]\<rparr>)"
proof -
  let ?st = "sim_start (sim_world_of (Some doge_account) 0)"
  let ?cur = "\<lparr>oc_name = ''Doge'', oc_symbol = ''DOGE'', oc_uri = ''u://1'',
               updateAuthority = (9::nat)\<rparr>"
  have p: "PublicKey_of_string sim_lib (mint (target mint_A nm)) = Inr 1" for nm
    by (simp add: target_def sim_mints)
  have f: "fetchCurrentMetadata sim_lib 1 ?st = (Some ?cur, ?st\<lparr>fetched := [sim_metadata_address 1]\<rparr>)"
    using sim_fetch_doge[of ?st 1] by (simp add: sim_start_def)
  have eq: "updateAuthority ?cur = publicKey (sim_wallet 9)"
    by (simp add: sim_wallet_def)
  have d1: "isMetadataDifferent ?cur (target mint_A ''Doge #1'')"
    by (simp add: isMetadataDifferent_def target_def trim_def isWhiteSpace_def)
  have d2: "\<not> isMetadataDifferent ?cur (target mint_A '' Doge '')"
    by (simp add: isMetadataDifferent_def target_def trim_def isWhiteSpace_def)
  from dry_run_is_pure[OF p _ f eq, of 3 "''Doge #1''" 1000, THEN conjunct1] d1
  have 1: "updateNFTMetadata sim_lib (sim_wallet 9) (target mint_A ''Doge #1'') True 3 1000 ?st =
       (Inr \<lparr>r_mint = mint_A, r_status = updated, r_action = Some ''dry run - would update'',
             r_oldValues = Some \<lparr>v_name = ''Doge'', v_symbol = ''DOGE'', v_uri = ''u://1''\<rparr>,
             r_newValues = Some \<lparr>v_name = ''Doge #1'', v_symbol = ''DOGE'', v_uri = ''u://1''\<rparr>,
             r_error = None, r_transactionSignature = None,
             r_timestamp = ''2024-01-01T00:00:00.000Z''\<rparr>,
        ?st\<lparr>fetched := [sim_metadata_address 1]\<rparr>)"
    by (simp add: target_def sim_lib_simps sim_start_def sim_world_of_def)
  from dry_run_is_pure[OF p _ f eq, of 3 "'' Doge ''" 1000, THEN conjunct1] d2
  have 2: "updateNFTMetadata sim_lib (sim_wallet 9) (target mint_A '' Doge '') True 3 1000 ?st =
       (Inr \<lparr>r_mint = mint_A, r_status = skipped, r_action = Some ''metadata already matches'',
             r_oldValues = None, r_newValues = None, r_error = None,
             r_transactionSignature = None, r_timestamp = ''2024-01-01T00:00:00.000Z''\<rparr>,
        ?st\<lparr>fetched := [sim_metadata_address 1]\<rparr>)"
    by (simp add: target_def sim_lib_simps sim_start_def sim_world_of_def)
  from 1 2 show ?thesis by blast
qed

section \<open>Failures of a record\<close>

lemma processBatch_unparsable:
  "PublicKey_of_string lib (mint m) = Inl e \<Longrightarrow>
   processBatch lib wallet (m # rest) dry r d st = (Inl e, st)"
  by (simp add: processBatch_def update_unparsable)

lemma slice_from_0: "slice_from xs 0 = xs"
  by (simp add: slice_from_def relative_index_def)

lemma slice_first_batch:
  "0 < bs \<Longrightarrow> slice (m # rest) 0 (0 + bs) = m # take (nat bs - 1) rest"
  by (simp add: slice_def relative_index_def Let_def take_Cons' min_def)

text \<open>
  C2 fails on the code: \<open>new PublicKey(metadata.mint)\<close> stands before the \<open>try\<close>. For a
  record whose mint does not parse, \<open>updateNFTMetadata\<close> rejects with the parser's error
  and returns no result; \<open>processBatch\<close> rejects with it, and a run whose first record is
  such a record ends in the \<open>catch\<close> of \<open>main\<close>, which exits with code 1.
\<close>

theorem unparsable_mint_throws:
  assumes "PublicKey_of_string lib (mint m) = Inl e"
  shows "updateNFTMetadata lib wallet m dry r d st = (Inl e, st)
         \<and> processBatch lib wallet (m # rest) dry r d st = (Inl e, st)
         \<and> (0 < batchSize config \<and> \<not> resumeFromCheckpoint config \<and> skipConfirm config
              \<longrightarrow> main_run lib wallet config (m # rest) answer st
                    = Some (Exit1 e, st\<lparr>logs := []\<rparr>))"
proof -
  have 3: "main_run lib wallet config (m # rest) answer st = Some (Exit1 e, st\<lparr>logs := []\<rparr>)"
    if c: "0 < batchSize config \<and> \<not> resumeFromCheckpoint config \<and> skipConfirm config"
  proof -
    have plan: "resume_plan config (m # rest) (st\<lparr>logs := []\<rparr>) =
        (0, \<lparr>processed = 0, t_updated = 0, t_skipped = 0, t_failed = 0\<rparr>, m # rest)"
      using c by (simp add: resume_plan_def slice_from_0)
    have it: "batch_iteration lib wallet config (m # rest) 0 0 c0 (st\<lparr>logs := []\<rparr>)
                = (Inl e, st\<lparr>logs := []\<rparr>)" for c0
      using c slice_first_batch[of "batchSize config" m rest]
      by (simp add: batch_iteration_def processBatch_unparsable[OF assms])
    have loop: "batch_loop lib wallet config (m # rest) 0 0 c0 (st\<lparr>logs := []\<rparr>)
                = Some (Inl e, st\<lparr>logs := []\<rparr>)" for c0
      by (subst batch_loop.simps) (simp add: it)
    show ?thesis
      using c by (simp add: main_run_def plan loop)
  qed
  from update_unparsable[OF assms] processBatch_unparsable[OF assms] 3
  show ?thesis by blast
qed

theorem unparsable_mint_throws_witness:
  "PublicKey_of_string sim_lib (mint (target ''not-a-mint'' ''Doge #1''))
     = Inl (Error ''Non-base58 character'')
   \<and> updateNFTMetadata sim_lib (sim_wallet 9) (target ''not-a-mint'' ''Doge #1'') True 3 1000
        (sim_start (sim_world_of (Some doge_account) 0))
     = (Inl (Error ''Non-base58 character''), sim_start (sim_world_of (Some doge_account) 0))
   \<and> main_run sim_lib (sim_wallet 9) default_config
        [target ''not-a-mint'' ''Doge #1'', target mint_B ''Doge #2''] True
        (sim_start (sim_world_of (Some doge_account) 0))
     = Some (Exit1 (Error ''Non-base58 character''),
             sim_start (sim_world_of (Some doge_account) 0))"
proof -
  have p: "PublicKey_of_string sim_lib (mint (target ''not-a-mint'' ''Doge #1''))
     = Inl (Error ''Non-base58 character'')"
    by (simp add: target_def sim_mints)
  note t = unparsable_mint_throws[OF p, of "sim_wallet 9" True 3 1000
      "sim_start (sim_world_of (Some doge_account) 0)" "[target mint_B ''Doge #2'']"
      default_config True]
  have c: "0 < batchSize default_config \<and> \<not> resumeFromCheckpoint default_config
           \<and> skipConfirm default_config"
    by (simp add: default_config_def)
  have l: "(sim_start w)\<lparr>logs := []\<rparr> = sim_start w" for w :: sim_world
    by (simp add: sim_start_def)
  from t c p show ?thesis by (simp add: l)
qed

text \<open>
  C4 fails on the code: \<open>fetchCurrentMetadata\<close> catches the error of \<open>getAccountInfo\<close> and
  returns \<open>null\<close>, so the retry wrapper around it sees a success. Whatever the retry
  budget, a fetch that throws is followed by no sleep and no second fetch, and the record
  fails at once with \<open>Failed to fetch current metadata\<close>, as it does for an absent
  account.
\<close>

theorem fetch_error_is_not_retried:
  assumes "PublicKey_of_string lib (mint m) = Inr mk" and "0 \<le> r"
    and "getMetadataAccount lib mk = Inr a"
    and "getAccountInfo lib a (world st) = (Inl e, w')"
  shows "updateNFTMetadata lib wallet m dry r d st =
           (Inr \<lparr>r_mint = mint m, r_status = error, r_action = None,
                 r_oldValues = None, r_newValues = None,
                 r_error = Some ''Failed to fetch current metadata'',
                 r_transactionSignature = None,
                 r_timestamp = toISOString_now lib (world st)\<rparr>,
            st\<lparr>world := w', fetched := fetched st @ [a]\<rparr>)"
  using update_not_fetched[OF assms(1,2) fetch_throw[OF assms(3,4)]] .

theorem fetch_error_is_not_retried_witness:
  "getAccountInfo sim_lib (sim_metadata_address 1)
       (world (sim_start (sim_world_of (Some doge_account) 1)))
     = (Inl (Error ''fetch failed''), sim_world_of (Some doge_account) 0)
   \<and> updateNFTMetadata sim_lib (sim_wallet 9) (target mint_A ''Doge #1'') True 3 1000
        (sim_start (sim_world_of (Some doge_account) 1))
     = (Inr \<lparr>r_mint = mint_A, r_status = error, r_action = None,
             r_oldValues = None, r_newValues = None,
             r_error = Some ''Failed to fetch current metadata'',
             r_transactionSignature = None, r_timestamp = ''2024-01-01T00:00:00.000Z''\<rparr>,
        (sim_start (sim_world_of (Some doge_account) 0))
          \<lparr>fetched := [sim_metadata_address 1]\<rparr>)
   \<and> fst (fetchCurrentMetadata sim_lib 1
            ((sim_start (sim_world_of (Some doge_account) 0))
               \<lparr>fetched := [sim_metadata_address 1]\<rparr>))
     = Some \<lparr>oc_name = ''Doge'', oc_symbol = ''DOGE'', oc_uri = ''u://1'', updateAuthority = 9\<rparr>"
proof -
  let ?st = "sim_start (sim_world_of (Some doge_account) 1)"
  have p: "PublicKey_of_string sim_lib (mint (target mint_A ''Doge #1'')) = Inr 1"
    by (simp add: target_def sim_mints)
  have g: "getAccountInfo sim_lib (sim_metadata_address 1) (world ?st)
     = (Inl (Error ''fetch failed''), sim_world_of (Some doge_account) 0)"
    by (simp add: sim_lib_simps sim_getAccountInfo_def sim_start_def sim_world_of_def)
  from fetch_error_is_not_retried[OF p _ sim_metadata_account g, of 3 "sim_wallet 9" True 1000]
  have u: "updateNFTMetadata sim_lib (sim_wallet 9) (target mint_A ''Doge #1'') True 3 1000 ?st
     = (Inr \<lparr>r_mint = mint_A, r_status = error, r_action = None,
             r_oldValues = None, r_newValues = None,
             r_error = Some ''Failed to fetch current metadata'',
             r_transactionSignature = None, r_timestamp = ''2024-01-01T00:00:00.000Z''\<rparr>,
        (sim_start (sim_world_of (Some doge_account) 0))
          \<lparr>fetched := [sim_metadata_address 1]\<rparr>)"
    by (simp add: target_def sim_lib_simps sim_start_def sim_world_of_def)
  have f: "fst (fetchCurrentMetadata sim_lib 1
            ((sim_start (sim_world_of (Some doge_account) 0))
               \<lparr>fetched := [sim_metadata_address 1]\<rparr>))
     = Some \<lparr>oc_name = ''Doge'', oc_symbol = ''DOGE'', oc_uri = ''u://1'', updateAuthority = 9\<rparr>"
    by (subst sim_fetch_doge) (simp_all add: sim_start_def)
  from g u f show ?thesis by blast
qed

section \<open>The cost estimate\<close>

lemma dry_run_unsigned:
  "updateNFTMetadata lib wallet m True r d st = (Inr res, st') \<Longrightarrow>
   r_transactionSignature res = None"
  unfolding updateNFTMetadata_def updateNFTMetadata_try_def Let_def
  by (auto split: sum.splits option.splits prod.splits if_splits)

lemma cost_sum:
  "calculateTotalCost rs None =
     (\<Sum>r\<leftarrow>rs. if r_status r = updated \<and> truthy (r_transactionSignature r)
                 then 5 / 1000000 else 0)"
  by (induction rs) (simp_all add: calculateTotalCost_def algebra_simps)

text \<open>
  C10. The total cost is the number of results that have status \<open>updated\<close> and carry a
  transaction signature (a non-empty string; an empty one is not truthy), times the
  default fee of 0.000005 SOL: each such result contributes the fee and every other result
  contributes nothing. In particular a list of results that are skipped, failed or
  without a signature costs 0, and so does every result \<open>updateNFTMetadata\<close> returns in a
  dry run, which never carries a signature.
\<close>

theorem calculateTotalCost_counts:
  "calculateTotalCost rs None =
     real (length (filter (\<lambda>r. r_status r = updated
                              \<and> (\<exists>s. r_transactionSignature r = Some s \<and> s \<noteq> [])) rs))
       * (5 / 1000000)
   \<and> calculateTotalCost rs None =
     (\<Sum>r\<leftarrow>rs. if r_status r = updated
                    \<and> (\<exists>s. r_transactionSignature r = Some s \<and> s \<noteq> [])
                 then 5 / 1000000 else 0)
   \<and> ((\<forall>r \<in> set rs. r_status r = skipped \<or> r_status r = error
                       \<or> r_transactionSignature r = None)
        \<longrightarrow> calculateTotalCost rs None = 0)
   \<and> (\<forall>res st'. updateNFTMetadata lib wallet m True retries delay st = (Inr res, st')
        \<longrightarrow> calculateTotalCost [res] None = 0)"
proof -
  have t: "truthy x = (\<exists>s. x = Some s \<and> s \<noteq> [])" for x
    by (cases x) (simp_all add: truthy_def)
  have 1: "calculateTotalCost rs None =
     real (length (filter (\<lambda>r. r_status r = updated
                              \<and> (\<exists>s. r_transactionSignature r = Some s \<and> s \<noteq> [])) rs))
       * (5 / 1000000)"
    by (simp add: calculateTotalCost_def t)
  have 2: "calculateTotalCost rs None =
     (\<Sum>r\<leftarrow>rs. if r_status r = updated
                    \<and> (\<exists>s. r_transactionSignature r = Some s \<and> s \<noteq> [])
                 then 5 / 1000000 else 0)"
    by (simp add: cost_sum t)
  have 3: "calculateTotalCost rs None = 0"
    if "\<forall>r \<in> set rs. r_status r = skipped \<or> r_status r = error
                       \<or> r_transactionSignature r = None"
  proof -
    have "filter (\<lambda>r. r_status r = updated \<and> truthy (r_transactionSignature r)) rs = []"
      using that by (auto simp: filter_empty_conv truthy_def)
    then show ?thesis by (simp add: calculateTotalCost_def)
  qed
  have 4: "calculateTotalCost [res] None = 0"
    if "updateNFTMetadata lib wallet m True retries delay st = (Inr res, st')" for res st'
    using dry_run_unsigned[OF that] by (simp add: calculateTotalCost_def truthy_def)
  from 1 2 3 4 show ?thesis by blast
qed

theorem calculateTotalCost_counts_witness:
  "calculateTotalCost
     [sim_result mint_A updated (Some ''5VERv8NMvzbJMEkV''), sim_result mint_B updated None,
      sim_result mint_C skipped None, sim_result mint_D error None,
      sim_result mint_A updated (Some [])] None = 5 / 1000000
   \<and> calculateTotalCost
       [sim_result mint_B updated None, sim_result mint_C skipped (Some ''5VERv8NMvzbJMEkV''),
        sim_result mint_D error None] None = 0
   \<and> calculateTotalCost
       [\<lparr>r_mint = mint_A, r_status = updated, r_action = Some ''dry run - would update'',
         r_oldValues = Some \<lparr>v_name = ''Doge'', v_symbol = ''DOGE'', v_uri = ''u://1''\<rparr>,
         r_newValues = Some \<lparr>v_name = ''Doge #1'', v_symbol = ''DOGE'', v_uri = ''u://1''\<rparr>,
         r_error = None, r_transactionSignature = None,
         r_timestamp = ''2024-01-01T00:00:00.000Z''\<rparr>] None = 0"
proof -
  let ?rs = "[sim_result mint_A updated (Some ''5VERv8NMvzbJMEkV''),
      sim_result mint_B updated None, sim_result mint_C skipped None,
      sim_result mint_D error None, sim_result mint_A updated (Some [])]"
  let ?zs = "[sim_result mint_B updated None,
      sim_result mint_C skipped (Some ''5VERv8NMvzbJMEkV''), sim_result mint_D error None]"
  note a = calculateTotalCost_counts[of ?rs sim_lib, THEN conjunct1]
  note b = calculateTotalCost_counts[of ?zs sim_lib, THEN conjunct2, THEN conjunct2,
      THEN conjunct1]
  note c = calculateTotalCost_counts[of "[]" sim_lib "sim_wallet 9" "target mint_A ''Doge #1''"
      3 1000 "sim_start (sim_world_of (Some doge_account) 0)",
      THEN conjunct2, THEN conjunct2, THEN conjunct2, rule_format, OF sim_dry_update]
  have 1: "calculateTotalCost ?rs None = 5 / 1000000"
    using a by (simp add: sim_result_def)
  have 2: "calculateTotalCost ?zs None = 0"
    using b by (simp add: sim_result_def)
  from 1 2 c show ?thesis by blast
qed

section \<open>What an update leaves alone\<close>

lemma leaves_files_refl [simp]: "leaves_files st st"
  by (simp add: leaves_files_def)

lemma leaves_files_trans: "leaves_files a b \<Longrightarrow> leaves_files b c \<Longrightarrow> leaves_files a c"
  by (simp add: leaves_files_def)

lemma leaves_files_sleep [simp]: "leaves_files st (sleep ms st)"
  by (simp add: leaves_files_def sleep_def)

lemma retry_loop_leaves_files:
  assumes "\<And>s x s'. fn s = (x, s') \<Longrightarrow> leaves_files s s'"
  shows "leaves_files st (snd (retry_loop fn r d a le st))"
  using assms
proof (induction fn r d a le st rule: retry_loop.induct)
  case (1 fn' r d a le st)
  show ?case
  proof (cases "int a \<le> r")
    case False
    then show ?thesis by (subst retry_loop.simps) simp
  next
    case True
    obtain x s' where f: "fn' st = (x, s')" by (cases "fn' st")
    show ?thesis
    proof (cases x)
      case (Inr v)
      have "leaves_files st s'" by (rule "1.prems"[OF f])
      then show ?thesis using True f Inr by (subst retry_loop.simps) simp
    next
      case (Inl e)
      let ?s'' = "if int a < r then sleep (d * 2 ^ a) s' else s'"
      have "leaves_files ?s'' (snd (retry_loop fn' r d (a + 1) (Some e) ?s''))"
        using "1.IH"[OF True f[symmetric] Inl "1.prems"] by simp
      moreover have "leaves_files st ?s''"
        using "1.prems"[OF f] by (auto intro: leaves_files_trans)
      ultimately show ?thesis
        using True f Inl
        by (subst retry_loop.simps) (auto intro: leaves_files_trans)
    qed
  qed
qed


lemma retry_leaves_files:
  assumes "\<And>s x s'. fn s = (x, s') \<Longrightarrow> leaves_files s s'"
  shows "leaves_files st (snd (retryWithBackoff fn r d st))"
  unfolding retryWithBackoff_def using assms by (rule retry_loop_leaves_files)

lemma fetch_leaves_files: "leaves_files st (snd (fetchCurrentMetadata lib mk st))"
proof -
  obtain c st1 where f: "fetchCurrentMetadata lib mk st = (c, st1)"
    by (cases "fetchCurrentMetadata lib mk st")
  from fetch_frame[OF f] show ?thesis by (auto simp: f leaves_files_def)
qed

lemma submit_leaves_files: "submit lib tx signers s = (x, s') \<Longrightarrow> leaves_files s s'"
  by (auto simp: submit_def leaves_files_def split: prod.splits)

lemma update_try_leaves_files:
  assumes "updateNFTMetadata_try lib wallet m mk ts dry r d st = (res, st')"
  shows "leaves_files st st'"
proof -
  let ?fetch = "\<lambda>s. case fetchCurrentMetadata lib mk s of (c, s') \<Rightarrow> (Inr c :: js_exn + _, s')"
  obtain x st1 where rf: "retryWithBackoff ?fetch r d st = (x, st1)"
    by (cases "retryWithBackoff ?fetch r d st")
  have "leaves_files s s'" if "?fetch s = (y, s')" for s y s'
    using that fetch_leaves_files[of s lib mk] by (auto split: prod.splits)
  from retry_leaves_files[of ?fetch st r d, OF this]
  have k1: "leaves_files st st1" by (simp add: rf)
  have k2: "leaves_files st s2"
    if "retryWithBackoff (submit lib tx [wallet]) r d st1 = (y, s2)" for tx y s2
  proof -
    have "leaves_files st1 (snd (retryWithBackoff (submit lib tx [wallet]) r d st1))"
      by (rule retry_leaves_files) (rule submit_leaves_files)
    with k1 that show ?thesis by (auto intro: leaves_files_trans)
  qed
  show ?thesis
    using assms k1 k2 unfolding updateNFTMetadata_try_def rf
    by (auto simp: Let_def split: sum.splits option.splits prod.splits if_splits)
qed

lemma update_leaves_files:
  assumes "updateNFTMetadata lib wallet m dry r d st = (res, st')"
  shows "leaves_files st st'"
  using assms update_try_leaves_files[of lib wallet m _ "toISOString_now lib (world st)" dry r d st]
  by (auto simp: updateNFTMetadata_def Let_def split: sum.splits prod.splits)

section \<open>Batches\<close>

declare batch_ends.simps [simp del]

lemma update_mint:
  "updateNFTMetadata lib wallet m dry r d st = (Inr res, st') \<Longrightarrow> r_mint res = mint m"
  unfolding updateNFTMetadata_def updateNFTMetadata_try_def Let_def
  by (auto split: sum.splits option.splits prod.splits if_splits)

lemma update_parsed:
  "\<not> isl (PublicKey_of_string lib (mint m)) \<Longrightarrow>
   \<not> isl (fst (updateNFTMetadata lib wallet m dry r d st))"
proof -
  assume "\<not> isl (PublicKey_of_string lib (mint m))"
  then obtain mk where "PublicKey_of_string lib (mint m) = Inr mk"
    by (cases "PublicKey_of_string lib (mint m)") simp_all
  from update_returns[OF this, of wallet dry r d st] show ?thesis by auto
qed

lemma processBatch_loop_result:
  assumes "processBatch_loop lib wallet batch dry r d acc st = (x, st')"
  shows "saved st' = saved st \<and> checkpointFile st' = checkpointFile st
         \<and> (\<forall>results. x = Inr results \<longrightarrow>
               (\<exists>new. results = acc @ new \<and> map r_mint new = map mint batch
                      \<and> logs st' = logs st @ new))
         \<and> (\<forall>e. x = Inl e \<longrightarrow>
               (\<exists>new. length new < length batch
                      \<and> map r_mint new = map mint (take (length new) batch)
                      \<and> logs st' = logs st @ new))"
  using assms
proof (induction batch arbitrary: acc st)
  case Nil
  then show ?case by auto
next
  case (Cons m batch)
  obtain y st1 where u: "updateNFTMetadata lib wallet m dry r d st = (y, st1)"
    by (cases "updateNFTMetadata lib wallet m dry r d st")
  have k: "leaves_files st st1" by (rule update_leaves_files[OF u])
  show ?case
  proof (cases y)
    case (Inl e)
    with Cons.prems u have "x = Inl e" "st' = st1" by simp_all
    with k show ?thesis by (auto simp: leaves_files_def)
  next
    case (Inr res)
    let ?st2 = "sleep 100 (logResult res st1)"
    from Cons.prems u Inr
    have rec: "processBatch_loop lib wallet batch dry r d (acc @ [res]) ?st2 = (x, st')"
      by simp
    note IH = Cons.IH[OF rec]
    have m: "r_mint res = mint m" using update_mint u Inr by blast
    have s2: "saved ?st2 = saved st" "checkpointFile ?st2 = checkpointFile st"
      "logs ?st2 = logs st @ [res]"
      using k by (simp_all add: sleep_def logResult_def leaves_files_def)
    show ?thesis
    proof (intro conjI allI impI)
      show "saved st' = saved st" using IH s2 by simp
      show "checkpointFile st' = checkpointFile st" using IH s2 by simp
    next
      fix results assume "x = Inr results"
      with IH obtain new where "results = (acc @ [res]) @ new"
        "map r_mint new = map mint batch" "logs st' = logs ?st2 @ new" by blast
      then show "\<exists>new. results = acc @ new \<and> map r_mint new = map mint (m # batch)
                      \<and> logs st' = logs st @ new"
        using m s2 by (intro exI[of _ "res # new"]) simp
    next
      fix e assume "x = Inl e"
      with IH obtain new where "length new < length batch"
        "map r_mint new = map mint (take (length new) batch)" "logs st' = logs ?st2 @ new"
        by blast
      then show "\<exists>new. length new < length (m # batch)
                      \<and> map r_mint new = map mint (take (length new) (m # batch))
                      \<and> logs st' = logs st @ new"
        using m s2 by (intro exI[of _ "res # new"]) simp
    qed
  qed
qed

lemma processBatch_loop_parsed:
  "\<forall>m \<in> set batch. \<not> isl (PublicKey_of_string lib (mint m)) \<Longrightarrow>
   \<not> isl (fst (processBatch_loop lib wallet batch dry r d acc st))"
proof (induction batch arbitrary: acc st)
  case Nil
  then show ?case by simp
next
  case (Cons m batch)
  from Cons.prems update_parsed[of lib m wallet dry r d st]
  obtain res st1 where u: "updateNFTMetadata lib wallet m dry r d st = (Inr res, st1)"
    by (cases "updateNFTMetadata lib wallet m dry r d st"; cases "fst (updateNFTMetadata lib wallet m dry r d st)") auto
  show ?case using Cons.IH Cons.prems by (simp add: u)
qed

lemma update_counters_sums:
  "processedCount (update_counters rs c) = processedCount c + int (length rs)"
  "seenMints (update_counters rs c) = seenMints c @ map r_mint rs"
  by (induction rs arbitrary: c) (simp_all add: Let_def)

lemma slice_batch:
  "0 < bs \<Longrightarrow> slice xs (int n) (int n + bs) = take (nat bs) (drop n xs)"
  by (auto simp: slice_def relative_index_def Let_def min_def nat_add_distrib)

lemma batch_iteration_result:
  assumes "batch_iteration lib wallet config metadata startIndex i c st = (x, st')"
  shows "isl x = isl (fst (processBatch lib wallet (slice metadata i (i + batchSize config))
                        (dryRun config) (maxRetries config) (retryDelayMs config) st))"
    and "x = Inl e \<Longrightarrow> saved st' = saved st
           \<and> (\<exists>new. length new < length (slice metadata i (i + batchSize config))
                  \<and> map r_mint new
                      = map mint (take (length new) (slice metadata i (i + batchSize config)))
                  \<and> logs st' = logs st @ new)"
    and "x = Inr c1 \<Longrightarrow>
           \<exists>results ts. map r_mint results = map mint (slice metadata i (i + batchSize config))
             \<and> c1 = update_counters results c \<and> logs st' = logs st @ results
             \<and> saved st' = saved st @
                 (if checkpointInterval config \<noteq> 0
                     \<and> processedCount c1 mod checkpointInterval config = 0
                  then [\<lparr>lastProcessedIndex = startIndex + processedCount c1 - 1,
                         processedMints = seenMints c1, c_timestamp = ts,
                         summary = \<lparr>processed = processedCount c1,
                                    t_updated = updatedCount c1,
                                    t_skipped = skippedCount c1,
                                    t_failed = failedCount c1\<rparr>\<rparr>]
                  else [])"
proof -
  let ?batch = "slice metadata i (i + batchSize config)"
  obtain y st1 where p: "processBatch_loop lib wallet ?batch (dryRun config) (maxRetries config)
      (retryDelayMs config) [] st = (y, st1)"
    by (cases "processBatch_loop lib wallet ?batch (dryRun config) (maxRetries config)
      (retryDelayMs config) [] st")
  note r = processBatch_loop_result[OF p]
  show "isl x = isl (fst (processBatch lib wallet ?batch
                        (dryRun config) (maxRetries config) (retryDelayMs config) st))"
    using assms p by (cases y) (auto simp: batch_iteration_def processBatch_def Let_def)
  show "saved st' = saved st
           \<and> (\<exists>new. length new < length ?batch
                  \<and> map r_mint new = map mint (take (length new) ?batch)
                  \<and> logs st' = logs st @ new)" if "x = Inl e"
  proof -
    from that assms p have "y = Inl e" "st' = st1"
      by (cases y; auto simp: batch_iteration_def processBatch_def Let_def)+
    with r show ?thesis by blast
  qed
  show "\<exists>results ts. map r_mint results = map mint ?batch
             \<and> c1 = update_counters results c \<and> logs st' = logs st @ results
             \<and> saved st' = saved st @
                 (if checkpointInterval config \<noteq> 0
                     \<and> processedCount c1 mod checkpointInterval config = 0
                  then [\<lparr>lastProcessedIndex = startIndex + processedCount c1 - 1,
                         processedMints = seenMints c1, c_timestamp = ts,
                         summary = \<lparr>processed = processedCount c1,
                                    t_updated = updatedCount c1,
                                    t_skipped = skippedCount c1,
                                    t_failed = failedCount c1\<rparr>\<rparr>]
                  else [])" if "x = Inr c1"
  proof -
    from that assms p obtain results where y: "y = Inr results"
      by (cases y) (auto simp: batch_iteration_def processBatch_def Let_def)
    with r have m: "map r_mint results = map mint ?batch" and l: "logs st1 = logs st @ results"
      and s: "saved st1 = saved st" by auto
    from that assms p y have c1: "c1 = update_counters results c"
      by (auto simp: batch_iteration_def processBatch_def Let_def)
    from that assms p y c1 l s
    have "logs st' = logs st @ results
          \<and> saved st' = saved st @
                 (if checkpointInterval config \<noteq> 0
                     \<and> processedCount c1 mod checkpointInterval config = 0
                  then [\<lparr>lastProcessedIndex = startIndex + processedCount c1 - 1,
                         processedMints = seenMints c1,
                         c_timestamp = toISOString_now lib (world st1),
                         summary = \<lparr>processed = processedCount c1,
                                    t_updated = updatedCount c1,
                                    t_skipped = skippedCount c1,
                                    t_failed = failedCount c1\<rparr>\<rparr>]
                  else [])"
      by (auto simp: batch_iteration_def processBatch_def Let_def saveCheckpoint_def sleep_def)
    with m c1 show ?thesis by blast
  qed
qed

section \<open>The batch loop\<close>

lemma take_take_drop:
  "j \<le> b \<Longrightarrow> take n xs @ take j (take b (drop n xs)) = take (n + j) xs"
  by (simp add: take_add min_def)

lemma batch_loop_invariant:
  assumes bs: "0 < batchSize config"
    and pc: "processedCount c = int (min n (length metadata))"
    and sm: "seenMints c = map mint (take n metadata)"
    and lg: "map r_mint (logs st) = map mint (take n metadata)"
  shows "\<exists>res st' new.
      batch_loop lib wallet config metadata startIndex (int n) c st = Some (res, st')
      \<and> saved st' = saved st @ new
      \<and> (\<forall>ck \<in> set new. sound_checkpoint config metadata startIndex ck
                        \<and> nat (processed (summary ck)) \<le> length (logs st'))
      \<and> map r_mint (logs st') = map mint (take (length (logs st')) metadata)
      \<and> length (logs st) \<le> length (logs st')
      \<and> (\<forall>c'. res = Inr c' \<longrightarrow>
            processedCount c' = int (length metadata)
            \<and> map r_mint (logs st') = map mint metadata
            \<and> map (\<lambda>ck. processed (summary ck)) new =
                filter (\<lambda>k. checkpointInterval config \<noteq> 0 \<and> k mod checkpointInterval config = 0)
                  (map int (batch_ends (nat (batchSize config)) (length metadata) n)))
      \<and> ((\<forall>m \<in> set metadata. \<not> isl (PublicKey_of_string lib (mint m))) \<longrightarrow> \<not> isl res)"
  using pc sm lg
proof (induction "length metadata - n" arbitrary: n c st rule: less_induct)
  case less
  let ?N = "length metadata"
  let ?B = "nat (batchSize config)"
  let ?iv = "checkpointInterval config"
  have B: "0 < ?B" "batchSize config = int ?B" using bs by simp_all
  have ll: "length (logs st) = min n ?N"
    using arg_cong[OF less.prems(3), of length] by simp
  show ?case
  proof (cases "n < ?N")
    case False
    then have stop: "batch_loop lib wallet config metadata startIndex (int n) c st = Some (Inr c, st)"
      by (subst batch_loop.simps) simp
    have e: "batch_ends ?B ?N n = []" using False by (subst batch_ends.simps) simp
    have t: "take n metadata = take (length (logs st)) metadata" using False ll by simp
    show ?thesis
      apply (rule exI[of _ "Inr c"], rule exI[of _ st], rule exI[of _ "[]"])
      using False less.prems e t stop by simp
  next
    case True
    let ?batch = "slice metadata (int n) (int n + batchSize config)"
    have batch: "?batch = take ?B (drop n metadata)" using bs by (rule slice_batch)
    have lb: "length ?batch = min ?B (?N - n)" by (simp add: batch)
    obtain x st3 where it: "batch_iteration lib wallet config metadata startIndex (int n) c st = (x, st3)"
      by (cases "batch_iteration lib wallet config metadata startIndex (int n) c st")
    note R = batch_iteration_result[OF it]
    show ?thesis
    proof (cases x)
      case (Inl e)
      have loop: "batch_loop lib wallet config metadata startIndex (int n) c st = Some (Inl e, st3)"
        using True it Inl by (subst batch_loop.simps) simp
      from R(2)[OF Inl] obtain new where s: "saved st3 = saved st"
        and ln: "length new < length ?batch"
        and mn: "map r_mint new = map mint (take (length new) ?batch)"
        and lo: "logs st3 = logs st @ new" by blast
      have j: "length new \<le> ?B" "n + length new \<le> ?N" using ln unfolding lb by auto
      have "map r_mint (logs st3) = map mint (take n metadata @ take (length new) ?batch)"
        using less.prems(3) mn lo by simp
      also have "\<dots> = map mint (take (n + length new) metadata)"
        unfolding batch using take_take_drop[OF j(1), of n metadata] by simp
      finally have pre: "map r_mint (logs st3) = map mint (take (length (logs st3)) metadata)"
        using lo ll True by simp
      have np: "\<not> (\<forall>m \<in> set metadata. \<not> isl (PublicKey_of_string lib (mint m)))"
      proof
        assume a: "\<forall>m \<in> set metadata. \<not> isl (PublicKey_of_string lib (mint m))"
        have "set ?batch \<subseteq> set metadata"
          unfolding batch by (meson set_drop_subset set_take_subset subset_trans)
        with a have "\<forall>m \<in> set ?batch. \<not> isl (PublicKey_of_string lib (mint m))" by blast
        from processBatch_loop_parsed[OF this] R(1) Inl show False
          by (simp add: processBatch_def)
      qed
      show ?thesis
        apply (rule exI[of _ "Inl e"], rule exI[of _ st3], rule exI[of _ "[]"])
        using loop s pre lo np by simp
    next
      case (Inr c1)
      from R(3)[OF Inr] obtain results ts where
        mr: "map r_mint results = map mint ?batch" and c1: "c1 = update_counters results c"
        and lo: "logs st3 = logs st @ results"
        and sv: "saved st3 = saved st @
                 (if ?iv \<noteq> 0 \<and> processedCount c1 mod ?iv = 0
                  then [\<lparr>lastProcessedIndex = startIndex + processedCount c1 - 1,
                         processedMints = seenMints c1, c_timestamp = ts,
                         summary = \<lparr>processed = processedCount c1,
                                    t_updated = updatedCount c1,
                                    t_skipped = skippedCount c1,
                                    t_failed = failedCount c1\<rparr>\<rparr>]
                  else [])" by blast
      let ?ck = "\<lparr>lastProcessedIndex = startIndex + processedCount c1 - 1,
                         processedMints = seenMints c1, c_timestamp = ts,
                         summary = \<lparr>processed = processedCount c1,
                                    t_updated = updatedCount c1,
                                    t_skipped = skippedCount c1,
                                    t_failed = failedCount c1\<rparr>\<rparr>"
      let ?now = "if ?iv \<noteq> 0 \<and> processedCount c1 mod ?iv = 0 then [?ck] else []"
      have lr: "length results = min ?B (?N - n)"
        using arg_cong[OF mr, of length] lb by simp
      have tk: "take n metadata @ ?batch = take (n + ?B) metadata"
        unfolding batch using take_take_drop[of ?B ?B n metadata] by simp
      have ar: "n + min ?B (?N - n) = min (n + ?B) ?N" using True by linarith
      have "processedCount c1 = int (min n ?N) + int (min ?B (?N - n))"
        using less.prems(1) lr by (simp add: c1 update_counters_sums)
      also have "\<dots> = int (n + min ?B (?N - n))" using True by simp
      finally have pc1: "processedCount c1 = int (min (n + ?B) ?N)" by (simp only: ar)
      have tk': "map mint (take n metadata) @ map mint ?batch = map mint (take (n + ?B) metadata)"
        using arg_cong[OF tk, of "map mint"] by simp
      have sm1: "seenMints c1 = map mint (take (n + ?B) metadata)"
        by (simp only: c1 update_counters_sums less.prems(2) mr tk')
      have lg1: "map r_mint (logs st3) = map mint (take (n + ?B) metadata)"
        by (simp only: lo map_append less.prems(3) mr tk')
      have l3: "length (logs st3) = min (n + ?B) ?N"
        using arg_cong[OF lg1, of length] by simp
      have dec: "?N - (n + ?B) < ?N - n" using True B by simp
      from less.hyps[OF dec pc1 sm1 lg1] obtain res st' new where
        loop': "batch_loop lib wallet config metadata startIndex (int (n + ?B)) c1 st3
                  = Some (res, st')"
        and sv': "saved st' = saved st3 @ new"
        and snd': "\<forall>ck \<in> set new. sound_checkpoint config metadata startIndex ck
                        \<and> nat (processed (summary ck)) \<le> length (logs st')"
        and pre': "map r_mint (logs st') = map mint (take (length (logs st')) metadata)"
        and mono': "length (logs st3) \<le> length (logs st')"
        and fin': "\<forall>c'. res = Inr c' \<longrightarrow>
            processedCount c' = int ?N
            \<and> map r_mint (logs st') = map mint metadata
            \<and> map (\<lambda>ck. processed (summary ck)) new =
                filter (\<lambda>k. ?iv \<noteq> 0 \<and> k mod ?iv = 0) (map int (batch_ends ?B ?N (n + ?B)))"
        and par': "(\<forall>m \<in> set metadata. \<not> isl (PublicKey_of_string lib (mint m))) \<longrightarrow> \<not> isl res"
        by blast
      have loop: "batch_loop lib wallet config metadata startIndex (int n) c st = Some (res, st')"
        using True it Inr loop' B(2) by (subst batch_loop.simps) simp
      have pos: "0 < min (n + ?B) ?N" using True B by auto
      have ck_ok: "sound_checkpoint config metadata startIndex ?ck
                   \<and> nat (processed (summary ?ck)) \<le> length (logs st')"
        if "?iv \<noteq> 0 \<and> processedCount c1 mod ?iv = 0"
        using that pos mono' l3
        by (simp add: sound_checkpoint_def pc1 sm1 min_def)
      have ends: "batch_ends ?B ?N n = min (n + ?B) ?N # batch_ends ?B ?N (n + ?B)"
        using True B by (subst batch_ends.simps) simp
      have g2: "saved st' = saved st @ (?now @ new)" by (simp add: sv' sv)
      have g3: "\<forall>ck \<in> set (?now @ new). sound_checkpoint config metadata startIndex ck
                        \<and> nat (processed (summary ck)) \<le> length (logs st')"
      proof
        fix ck assume "ck \<in> set (?now @ new)"
        then consider "ck \<in> set new" | "ck = ?ck" "?iv \<noteq> 0 \<and> processedCount c1 mod ?iv = 0"
          by (auto split: if_splits)
        then show "sound_checkpoint config metadata startIndex ck
                        \<and> nat (processed (summary ck)) \<le> length (logs st')"
        proof cases
          case 1
          with snd' show ?thesis by blast
        next
          case 2
          with ck_ok show ?thesis by blast
        qed
      qed
      have g5: "length (logs st) \<le> length (logs st')" using mono' lo by simp
      have g6: "\<forall>c'. res = Inr c' \<longrightarrow>
            processedCount c' = int ?N
            \<and> map r_mint (logs st') = map mint metadata
            \<and> map (\<lambda>ck. processed (summary ck)) (?now @ new) =
                filter (\<lambda>k. ?iv \<noteq> 0 \<and> k mod ?iv = 0) (map int (batch_ends ?B ?N n))"
        using fin' by (simp add: ends pc1)
      from loop g2 g3 pre' g5 g6 par' show ?thesis by blast
    qed
  qed
qed

section \<open>Checkpoints\<close>

lemma manifest4_parses:
  "\<forall>m \<in> set manifest4. \<not> isl (PublicKey_of_string sim_lib (mint m))"
  by (simp add: manifest4_def target_def sim_mints)

lemma length_manifest4: "length manifest4 = 4"
  by (simp add: manifest4_def)

lemma batch_ends_manifest4:
  "batch_ends 25 (length manifest4) 0 = [4]"
  unfolding length_manifest4 by (simp add: batch_ends.simps)

lemma int_zero: "int 0 = 0"
  by simp

lemma initial_counters_start:
  "processedCount (initial_counters p) = int (min 0 (length (metadata :: NFTMetadata list)))"
  "seenMints (initial_counters p) = map mint (take 0 metadata)"
  by (simp_all add: initial_counters_def)

text \<open>
  The checkpoint interval is tested at the end of a batch only (line 268). A fresh run over
  four records in one batch of 25 with a checkpoint interval of 3 logs all four outcomes
  and saves no checkpoint, although a third record was processed.
\<close>

lemma interval_within_a_batch_saves_nothing:
  "map_option (\<lambda>(res, st'). (isl res, map r_mint (logs st'), saved st'))
     (batch_loop sim_lib (sim_wallet 9) (default_config\<lparr>checkpointInterval := 3\<rparr>) manifest4 0 0
        (initial_counters \<lparr>processed = 0, t_updated = 0, t_skipped = 0, t_failed = 0\<rparr>)
        (sim_start (sim_world_of (Some doge_account) 0)))
   = Some (False, [mint_A, mint_B, mint_C, mint_D], [])"
proof -
  let ?cfg = "default_config\<lparr>checkpointInterval := 3\<rparr>"
  let ?st = "sim_start (sim_world_of (Some doge_account) 0) :: (nat, sim_world) rt"
  let ?c0 = "initial_counters \<lparr>processed = 0, t_updated = 0, t_skipped = 0, t_failed = 0\<rparr>"
  have b: "0 < batchSize ?cfg" by (simp add: default_config_def)
  have lg: "map r_mint (logs ?st) = map mint (take 0 manifest4)" by (simp add: sim_start_def)
  note inv = batch_loop_invariant[OF b initial_counters_start[of _ manifest4] lg,
      of sim_lib "sim_wallet 9" 0, unfolded int_zero]
  from inv obtain res st' new where
    loop: "batch_loop sim_lib (sim_wallet 9) ?cfg manifest4 0 0 ?c0 ?st = Some (res, st')"
    and sv: "saved st' = saved ?st @ new"
    and fin: "\<forall>c'. res = Inr c' \<longrightarrow>
            processedCount c' = int (length manifest4)
            \<and> map r_mint (logs st') = map mint manifest4
            \<and> map (\<lambda>ck. processed (summary ck)) new =
                filter (\<lambda>k. checkpointInterval ?cfg \<noteq> 0 \<and> k mod checkpointInterval ?cfg = 0)
                  (map int (batch_ends (nat (batchSize ?cfg)) (length manifest4) 0))"
    and par: "(\<forall>m \<in> set manifest4. \<not> isl (PublicKey_of_string sim_lib (mint m))) \<longrightarrow> \<not> isl res"
    by blast
  from par manifest4_parses obtain c where res: "res = Inr c" by (cases res) auto
  from fin res have "new = []"
    by (simp add: default_config_def batch_ends_manifest4)
  moreover from fin res have "map r_mint (logs st') = [mint_A, mint_B, mint_C, mint_D]"
    by (simp add: manifest4_def target_def)
  ultimately have "new = []" "map r_mint (logs st') = [mint_A, mint_B, mint_C, mint_D]"
    by simp_all
  with sv loop res show ?thesis by (simp add: sim_start_def)
qed

section \<open>Resuming from a checkpoint\<close>

lemma filter_unprocessed:
  assumes "distinct (map f xs)"
  shows "filter (\<lambda>x. f x \<notin> set (map f (take k xs))) xs = drop k xs"
proof -
  have d: "distinct (map f (take k xs) @ map f (drop k xs))"
    using assms by (simp flip: map_append)
  have 1: "filter (\<lambda>x. f x \<notin> set (map f (take k xs))) (take k xs) = []"
    by (auto simp: filter_empty_conv)
  have 2: "filter (\<lambda>x. f x \<notin> set (map f (take k xs))) (drop k xs) = drop k xs"
    using d by (auto simp: filter_id_conv)
  have "filter (\<lambda>x. f x \<notin> set (map f (take k xs))) (take k xs @ drop k xs) = drop k xs"
    unfolding filter_append 1 2 by simp
  then show ?thesis by simp
qed

lemma slice_from_nat: "slice_from xs (int k) = drop k xs"
  by (simp add: slice_from_def relative_index_def min_def)

lemma resume_plan_twice:
  assumes "resumeFromCheckpoint config" and "checkpointFile st = Some ck"
    and "distinct (map mint records)"
    and "processedMints ck = map mint (take k records)"
    and "lastProcessedIndex ck = int k - 1"
  shows "resume_plan config records st = (int k, summary ck, drop (2 * k) records)"
proof -
  have "filter (\<lambda>m. mint m \<notin> set (processedMints ck)) records = drop k records"
    unfolding assms(4) by (rule filter_unprocessed[OF assms(3)])
  then show ?thesis
    using assms(1,2,5) slice_from_nat[of "drop k records" k]
    by (simp add: resume_plan_def loadCheckpoint_def mult_2)
qed


text \<open>
  C1 fails on the code: a resumed run drops the processed records twice, once by mint
  (the filter) and once by position (the slice from the checkpoint's index plus one). For
  a manifest of distinct mints and the checkpoint saved after its first \<open>k\<close> records, the
  work list of the resumed run is the manifest without its first \<open>2 * k\<close> records. With
  at most \<open>2 * k\<close> records it returns with nothing to process; with more it completes
  having processed, logged and counted as processed only the records from \<open>2 * k\<close> on.
\<close>

theorem resume_skips_unprocessed_records:
  assumes "resumeFromCheckpoint config" and "checkpointFile st = Some ck"
    and "distinct (map mint records)"
    and "processedMints ck = map mint (take k records)"
    and "lastProcessedIndex ck = int k - 1"
  shows "resume_plan config records st = (int k, summary ck, drop (2 * k) records)
    \<and> (length records \<le> 2 * k \<longrightarrow>
         main_run lib wallet config records answer st
           = Some (NothingToProcess, st\<lparr>logs := []\<rparr>))
    \<and> (2 * k < length records \<and> 0 < batchSize config \<and> skipConfirm config
         \<and> (\<forall>m \<in> set records. \<not> isl (PublicKey_of_string lib (mint m))) \<longrightarrow>
         (\<exists>report st'. main_run lib wallet config records answer st
                          = Some (Completed report, st')
            \<and> totalProcessed report = int (length records) - 2 * int k
            \<and> map_option (map r_mint) (logFile st') = Some (map mint (drop (2 * k) records))))"
proof -
  let ?st0 = "st\<lparr>logs := []\<rparr>"
  let ?md = "drop (2 * k) records"
  have plan: "resume_plan config records ?st0 = (int k, summary ck, ?md)"
    by (rule resume_plan_twice[OF assms(1) _ assms(3,4,5)]) (simp add: assms(2))
  have 1: "resume_plan config records st = (int k, summary ck, ?md)"
    by (rule resume_plan_twice[OF assms])
  have 2: "main_run lib wallet config records answer st = Some (NothingToProcess, ?st0)"
    if "length records \<le> 2 * k"
    using that by (simp add: main_run_def plan)
  have 3: "\<exists>report st'. main_run lib wallet config records answer st
                          = Some (Completed report, st')
            \<and> totalProcessed report = int (length records) - 2 * int k
            \<and> map_option (map r_mint) (logFile st') = Some (map mint ?md)"
    if h: "2 * k < length records \<and> 0 < batchSize config \<and> skipConfirm config
         \<and> (\<forall>m \<in> set records. \<not> isl (PublicKey_of_string lib (mint m)))"
  proof -
    have lg: "map r_mint (logs ?st0) = map mint (take 0 ?md)" by simp
    have bs: "0 < batchSize config" using h by simp
    note inv = batch_loop_invariant[OF bs initial_counters_start[of "summary ck" ?md] lg,
        of lib wallet "int k", unfolded int_zero]
    have "\<forall>m \<in> set ?md. \<not> isl (PublicKey_of_string lib (mint m))"
      using h by (meson in_set_dropD)
    with inv obtain c st1 where
      loop: "batch_loop lib wallet config ?md (int k) 0 (initial_counters (summary ck)) ?st0
               = Some (Inr c, st1)"
      and pc: "processedCount c = int (length ?md)"
      and lo: "map r_mint (logs st1) = map mint ?md"
      by (metis (no_types, lifting) isl_def sum.exhaust_sel)
    have ne: "length ?md \<noteq> 0" using h by simp
    show ?thesis
      using h ne pc lo
      by (simp add: main_run_def plan loop Let_def createSummary_def deleteCheckpoint_def)
  qed
  from 1 2 3 show ?thesis by blast
qed


lemma fresh_run_processes_all:
  assumes "\<not> resumeFromCheckpoint config" and "0 < batchSize config" and "skipConfirm config"
    and "records \<noteq> []"
    and "\<forall>m \<in> set records. \<not> isl (PublicKey_of_string lib (mint m))"
  shows "\<exists>report st'. main_run lib wallet config records answer st
                          = Some (Completed report, st')
            \<and> totalProcessed report = int (length records)
            \<and> map_option (map r_mint) (logFile st') = Some (map mint records)"
proof -
  let ?st0 = "st\<lparr>logs := []\<rparr>"
  let ?zero = "\<lparr>processed = 0, t_updated = 0, t_skipped = 0, t_failed = 0\<rparr>"
  have plan: "resume_plan config records ?st0 = (0, ?zero, records)"
    using assms(1) by (simp add: resume_plan_def slice_from_0)
  have lg: "map r_mint (logs ?st0) = map mint (take 0 records)" by simp
  note inv = batch_loop_invariant[OF assms(2) initial_counters_start[of ?zero records] lg,
      of lib wallet 0, unfolded int_zero]
  with assms(5) obtain c st1 where
    loop: "batch_loop lib wallet config records 0 0 (initial_counters ?zero) ?st0
             = Some (Inr c, st1)"
    and pc: "processedCount c = int (length records)"
    and lo: "map r_mint (logs st1) = map mint records"
    by (metis (no_types, lifting) isl_def sum.exhaust_sel)
  show ?thesis
    using assms(3,4) pc lo
    by (simp add: main_run_def plan loop Let_def createSummary_def deleteCheckpoint_def)
qed

lemma sim_start_world [simp]: "world (sim_start w) = w"
  by (simp add: sim_start_def)

lemma first_record_checkpoint:
  "checkpointFile (snd (batch_iteration sim_lib (sim_wallet 9)
        (default_config\<lparr>batchSize := 1, checkpointInterval := 1\<rparr>) manifest4 0 0
        (initial_counters \<lparr>processed = 0, t_updated = 0, t_skipped = 0, t_failed = 0\<rparr>)
        (sim_start (sim_world_of (Some doge_account) 0))))
   = Some \<lparr>lastProcessedIndex = 0, processedMints = [mint_A],
           c_timestamp = ''2024-01-01T00:00:00.000Z'',
           summary = \<lparr>processed = 1, t_updated = 1, t_skipped = 0, t_failed = 0\<rparr>\<rparr>"
proof -
  let ?cfg = "default_config\<lparr>batchSize := 1, checkpointInterval := 1\<rparr>"
  have batch: "slice manifest4 0 1 = [target mint_A ''Doge #1'']"
    by (simp add: manifest4_def slice_def relative_index_def)
  have cfg: "dryRun ?cfg = True" "maxRetries ?cfg = 3" "retryDelayMs ?cfg = 1000"
    "checkpointInterval ?cfg = 1" "batchSize ?cfg = 1" "batchDelayMs ?cfg = 500"
    by (simp_all add: default_config_def)
  show ?thesis
    unfolding batch_iteration_def Let_def cfg processBatch_def
    by (simp add: batch sim_dry_update)
      (simp add: initial_counters_def saveCheckpoint_def sleep_def logResult_def
         sim_lib_simps sim_world_of_def)
qed

theorem resume_skips_unprocessed_records_witness:
  "checkpointFile (snd (batch_iteration sim_lib (sim_wallet 9)
        (default_config\<lparr>batchSize := 1, checkpointInterval := 1\<rparr>) manifest4 0 0
        (initial_counters \<lparr>processed = 0, t_updated = 0, t_skipped = 0, t_failed = 0\<rparr>)
        (sim_start (sim_world_of (Some doge_account) 0))))
     = Some \<lparr>lastProcessedIndex = 0, processedMints = [mint_A],
             c_timestamp = ''2024-01-01T00:00:00.000Z'',
             summary = \<lparr>processed = 1, t_updated = 1, t_skipped = 0, t_failed = 0\<rparr>\<rparr>
   \<and> distinct (map mint manifest4)
   \<and> resume_plan
        (default_config\<lparr>batchSize := 1, checkpointInterval := 1, resumeFromCheckpoint := True\<rparr>)
        manifest4
        ((sim_start (sim_world_of (Some doge_account) 0))
           \<lparr>checkpointFile := Some \<lparr>lastProcessedIndex = 0, processedMints = [mint_A],
                c_timestamp = ''2024-01-01T00:00:00.000Z'',
                summary = \<lparr>processed = 1, t_updated = 1, t_skipped = 0, t_failed = 0\<rparr>\<rparr>\<rparr>)
     = (1, \<lparr>processed = 1, t_updated = 1, t_skipped = 0, t_failed = 0\<rparr>,
        [target mint_C ''Doge #3'', target mint_D ''Doge #4''])
   \<and> (\<exists>report st'.
        main_run sim_lib (sim_wallet 9)
          (default_config\<lparr>batchSize := 1, checkpointInterval := 1,
             resumeFromCheckpoint := True\<rparr>)
          manifest4 True
          ((sim_start (sim_world_of (Some doge_account) 0))
             \<lparr>checkpointFile := Some \<lparr>lastProcessedIndex = 0, processedMints = [mint_A],
                  c_timestamp = ''2024-01-01T00:00:00.000Z'',
                  summary = \<lparr>processed = 1, t_updated = 1, t_skipped = 0, t_failed = 0\<rparr>\<rparr>\<rparr>)
          = Some (Completed report, st')
        \<and> totalProcessed report = 2
        \<and> map_option (map r_mint) (logFile st') = Some [mint_C, mint_D])
   \<and> (\<exists>report st'.
        main_run sim_lib (sim_wallet 9)
          (default_config\<lparr>batchSize := 1, checkpointInterval := 1\<rparr>) manifest4 True
          (sim_start (sim_world_of (Some doge_account) 0))
          = Some (Completed report, st')
        \<and> totalProcessed report = 4
        \<and> map_option (map r_mint) (logFile st') = Some [mint_A, mint_B, mint_C, mint_D])"
proof -
  let ?ck = "\<lparr>lastProcessedIndex = 0, processedMints = [mint_A],
             c_timestamp = ''2024-01-01T00:00:00.000Z'',
             summary = \<lparr>processed = 1, t_updated = 1, t_skipped = 0, t_failed = 0\<rparr>\<rparr>"
  let ?cfg = "default_config\<lparr>batchSize := 1, checkpointInterval := 1\<rparr>"
  let ?cfgR = "default_config\<lparr>batchSize := 1, checkpointInterval := 1,
                 resumeFromCheckpoint := True\<rparr>"
  let ?st = "sim_start (sim_world_of (Some doge_account) 0) :: (nat, sim_world) rt"
  let ?stR = "?st\<lparr>checkpointFile := Some ?ck\<rparr>"
  have h1: "resumeFromCheckpoint ?cfgR" by simp
  have h2: "checkpointFile ?stR = Some ?ck" by simp
  have h3: "distinct (map mint manifest4)"
    by (simp add: manifest4_def target_def mint_A_def mint_B_def mint_C_def mint_D_def)
  have h4: "processedMints ?ck = map mint (take 1 manifest4)"
    by (simp add: manifest4_def target_def)
  have h5: "lastProcessedIndex ?ck = int 1 - 1" by simp
  note t = resume_skips_unprocessed_records[OF h1 h2 h3 h4 h5, of sim_lib "sim_wallet 9" True]
  have d: "drop 2 manifest4 = [target mint_C ''Doge #3'', target mint_D ''Doge #4'']"
    by (simp add: manifest4_def)
  have a: "resume_plan ?cfgR manifest4 ?stR
     = (1, \<lparr>processed = 1, t_updated = 1, t_skipped = 0, t_failed = 0\<rparr>,
        [target mint_C ''Doge #3'', target mint_D ''Doge #4''])"
    using t[THEN conjunct1] by (simp add: d)
  have c: "2 * 1 < length manifest4 \<and> 0 < batchSize ?cfgR \<and> skipConfirm ?cfgR
         \<and> (\<forall>m \<in> set manifest4. \<not> isl (PublicKey_of_string sim_lib (mint m)))"
    using manifest4_parses by (simp add: length_manifest4 default_config_def)
  from t[THEN conjunct2, THEN conjunct2, rule_format, OF c]
  obtain report st' where
    "main_run sim_lib (sim_wallet 9) ?cfgR manifest4 True ?stR = Some (Completed report, st')"
    "totalProcessed report = int (length manifest4) - 2 * int 1"
    "map_option (map r_mint) (logFile st') = Some (map mint (drop (2 * 1) manifest4))"
    by blast
  then have b: "\<exists>report st'.
        main_run sim_lib (sim_wallet 9) ?cfgR manifest4 True ?stR = Some (Completed report, st')
        \<and> totalProcessed report = 2
        \<and> map_option (map r_mint) (logFile st') = Some [mint_C, mint_D]"
    by (simp add: d length_manifest4 target_def)
  have f: "\<not> resumeFromCheckpoint ?cfg" "0 < batchSize ?cfg" "skipConfirm ?cfg"
    "manifest4 \<noteq> []"
    by (simp_all add: default_config_def manifest4_def)
  from fresh_run_processes_all[OF f manifest4_parses, of "sim_wallet 9" True ?st]
  have e: "\<exists>report st'.
        main_run sim_lib (sim_wallet 9) ?cfg manifest4 True ?st = Some (Completed report, st')
        \<and> totalProcessed report = 4
        \<and> map_option (map r_mint) (logFile st') = Some [mint_A, mint_B, mint_C, mint_D]"
    by (simp add: length_manifest4) (simp add: manifest4_def target_def)
  from first_record_checkpoint h3 a b e show ?thesis by blast
qed

section \<open>Checkpoints of a resumed run\<close>

lemma set_slice_from: "set (slice_from xs i) \<subseteq> set xs"
  by (simp add: slice_from_def set_drop_subset)

lemma resume_plan_loaded:
  assumes "resumeFromCheckpoint config" and "checkpointFile st = Some ck0"
  shows "\<exists>metadata.
      resume_plan config records st = (lastProcessedIndex ck0 + 1, summary ck0, metadata)
      \<and> set metadata \<subseteq> set records
      \<and> mint ` set metadata \<inter> set (processedMints ck0) = {}"
proof -
  let ?f = "filter (\<lambda>m. mint m \<notin> set (processedMints ck0)) records"
  let ?md = "slice_from ?f (lastProcessedIndex ck0 + 1)"
  have "resume_plan config records st = (lastProcessedIndex ck0 + 1, summary ck0, ?md)"
    using assms by (simp add: resume_plan_def loadCheckpoint_def)
  moreover have "set ?md \<subseteq> set ?f" by (rule set_slice_from)
  then have "set ?md \<subseteq> set records" "mint ` set ?md \<inter> set (processedMints ck0) = {}"
    by auto
  ultimately show ?thesis by blast
qed

text \<open>
  C8 fails on the code. A run that resumes from the checkpoint \<open>ck0\<close> enters the batch loop
  with \<open>processedCount\<close> at 0 and \<open>processedMints\<close> empty (lines 229 and 234), whatever the
  checkpoint holds. With a positive batch size the run ends, and every checkpoint it saves
  has: as last index the index after \<open>ck0\<close>'s plus the processed count less one; as
  processed count the number of its own processed mints; as processed mints the mints of
  the outcomes this run has logged by then, which are those of the first records of its
  work list; no mint of \<open>ck0\<close> among them; and a processed count that the checkpoint
  interval, not 0, divides. When the run completes, the processed counts of the
  checkpoints saved are, in order, the counts reached at the end of a batch that are
  multiples of the interval; and it completes when the prompt is skipped, the work list
  is not empty and every mint of the manifest parses.
\<close>

theorem resumed_checkpoints_forget_earlier_records:
  assumes "resumeFromCheckpoint config" and "checkpointFile st = Some ck0"
    and "0 < batchSize config"
  shows "\<exists>metadata ex st' new.
      resume_plan config records st = (lastProcessedIndex ck0 + 1, summary ck0, metadata)
    \<and> main_run lib wallet config records answer st = Some (ex, st')
    \<and> saved st' = saved st @ new
    \<and> (\<forall>ck \<in> set new.
          lastProcessedIndex ck = lastProcessedIndex ck0 + 1 + processed (summary ck) - 1
        \<and> processed (summary ck) = int (length (processedMints ck))
        \<and> processedMints ck = map r_mint (take (length (processedMints ck)) (logs st'))
        \<and> processedMints ck = map mint (take (length (processedMints ck)) metadata)
        \<and> set (processedMints ck) \<inter> set (processedMints ck0) = {}
        \<and> checkpointInterval config \<noteq> 0
        \<and> processed (summary ck) mod checkpointInterval config = 0)
    \<and> (\<forall>report. ex = Completed report \<longrightarrow>
          map (\<lambda>ck. processed (summary ck)) new =
            filter (\<lambda>k. checkpointInterval config \<noteq> 0 \<and> k mod checkpointInterval config = 0)
              (map int (batch_ends (nat (batchSize config)) (length metadata) 0)))
    \<and> (skipConfirm config \<and> metadata \<noteq> []
         \<and> (\<forall>m \<in> set records. \<not> isl (PublicKey_of_string lib (mint m)))
        \<longrightarrow> (\<exists>report. ex = Completed report))"
proof -
  let ?st0 = "st\<lparr>logs := []\<rparr>"
  let ?start = "lastProcessedIndex ck0 + 1"
  have same: "resume_plan config records ?st0 = resume_plan config records st"
    by (cases "resumeFromCheckpoint config") (simp_all add: resume_plan_def loadCheckpoint_def)
  from resume_plan_loaded[OF assms(1,2), of records] obtain metadata where
    plan: "resume_plan config records st = (?start, summary ck0, metadata)"
    and sub: "set metadata \<subseteq> set records"
    and dis: "mint ` set metadata \<inter> set (processedMints ck0) = {}"
    by blast
  have plan0: "resume_plan config records ?st0 = (?start, summary ck0, metadata)"
    using plan same by simp
  let ?P = "\<lambda>ex st' new.
      main_run lib wallet config records answer st = Some (ex, st')
    \<and> saved st' = saved st @ new
    \<and> (\<forall>ck \<in> set new.
          lastProcessedIndex ck = ?start + processed (summary ck) - 1
        \<and> processed (summary ck) = int (length (processedMints ck))
        \<and> processedMints ck = map r_mint (take (length (processedMints ck)) (logs st'))
        \<and> processedMints ck = map mint (take (length (processedMints ck)) metadata)
        \<and> set (processedMints ck) \<inter> set (processedMints ck0) = {}
        \<and> checkpointInterval config \<noteq> 0
        \<and> processed (summary ck) mod checkpointInterval config = 0)
    \<and> (\<forall>report. ex = Completed report \<longrightarrow>
          map (\<lambda>ck. processed (summary ck)) new =
            filter (\<lambda>k. checkpointInterval config \<noteq> 0 \<and> k mod checkpointInterval config = 0)
              (map int (batch_ends (nat (batchSize config)) (length metadata) 0)))
    \<and> (skipConfirm config \<and> metadata \<noteq> []
         \<and> (\<forall>m \<in> set records. \<not> isl (PublicKey_of_string lib (mint m)))
        \<longrightarrow> (\<exists>report. ex = Completed report))"
  have "\<exists>ex st' new. ?P ex st' new"
  proof (cases "metadata = []")
    case True
    then have "?P NothingToProcess ?st0 []"
      by (simp add: main_run_def plan0)
    then show ?thesis by blast
  next
    case ne: False
    show ?thesis
    proof (cases "\<not> skipConfirm config \<and> \<not> answer")
      case True
      then have "?P Cancelled ?st0 []"
        using ne by (simp add: main_run_def plan0)
      then show ?thesis by blast
    next
      case go: False
      have lg: "map r_mint (logs ?st0) = map mint (take 0 metadata)" by simp
      note inv = batch_loop_invariant[OF assms(3) initial_counters_start[of "summary ck0" metadata]
          lg, of lib wallet ?start, unfolded int_zero]
      from inv obtain res st1 new where
        loop: "batch_loop lib wallet config metadata ?start 0 (initial_counters (summary ck0)) ?st0
                 = Some (res, st1)"
        and sv: "saved st1 = saved ?st0 @ new"
        and snd: "\<forall>ck \<in> set new. sound_checkpoint config metadata ?start ck
                        \<and> nat (processed (summary ck)) \<le> length (logs st1)"
        and pre: "map r_mint (logs st1) = map mint (take (length (logs st1)) metadata)"
        and fin: "\<forall>c'. res = Inr c' \<longrightarrow>
            processedCount c' = int (length metadata)
            \<and> map r_mint (logs st1) = map mint metadata
            \<and> map (\<lambda>ck. processed (summary ck)) new =
                filter (\<lambda>k. checkpointInterval config \<noteq> 0 \<and> k mod checkpointInterval config = 0)
                  (map int (batch_ends (nat (batchSize config)) (length metadata) 0))"
        and par: "(\<forall>m \<in> set metadata. \<not> isl (PublicKey_of_string lib (mint m))) \<longrightarrow> \<not> isl res"
        by blast
      have each: "lastProcessedIndex ck = ?start + processed (summary ck) - 1
        \<and> processed (summary ck) = int (length (processedMints ck))
        \<and> processedMints ck = map r_mint (take (length (processedMints ck)) (logs st1))
        \<and> processedMints ck = map mint (take (length (processedMints ck)) metadata)
        \<and> set (processedMints ck) \<inter> set (processedMints ck0) = {}
        \<and> checkpointInterval config \<noteq> 0
        \<and> processed (summary ck) mod checkpointInterval config = 0"
        if "ck \<in> set new" for ck
      proof -
        let ?k = "nat (processed (summary ck))"
        from snd that have s: "sound_checkpoint config metadata ?start ck"
          and k: "?k \<le> length (logs st1)" by blast+
        from s have pm: "processedMints ck = map mint (take ?k metadata)"
          and rng: "0 < processed (summary ck)" "processed (summary ck) \<le> int (length metadata)"
          by (simp_all add: sound_checkpoint_def)
        have len: "length (processedMints ck) = ?k" using pm rng by simp
        have "map r_mint (take ?k (logs st1)) = take ?k (map r_mint (logs st1))"
          by (simp add: take_map)
        also have "\<dots> = map mint (take ?k (take (length (logs st1)) metadata))"
          by (simp add: pre take_map)
        also have "\<dots> = map mint (take ?k metadata)" using k by (simp add: min_def)
        finally have lgs: "processedMints ck = map r_mint (take ?k (logs st1))" using pm by simp
        have "set (processedMints ck) \<subseteq> mint ` set metadata"
          unfolding pm using set_take_subset[of ?k metadata] by auto
        with dis have d: "set (processedMints ck) \<inter> set (processedMints ck0) = {}" by blast
        show ?thesis
          using s pm lgs d rng unfolding len by (simp add: sound_checkpoint_def)
      qed
      have sv': "saved st1 = saved st @ new" using sv by simp
      from each have all: "\<forall>ck \<in> set new.
          lastProcessedIndex ck = ?start + processed (summary ck) - 1
        \<and> processed (summary ck) = int (length (processedMints ck))
        \<and> processedMints ck = map r_mint (take (length (processedMints ck)) (logs st1))
        \<and> processedMints ck = map mint (take (length (processedMints ck)) metadata)
        \<and> set (processedMints ck) \<inter> set (processedMints ck0) = {}
        \<and> checkpointInterval config \<noteq> 0
        \<and> processed (summary ck) mod checkpointInterval config = 0"
        by blast
      show ?thesis
      proof (cases res)
        case (Inl e)
        have "main_run lib wallet config records answer st = Some (Exit1 e, st1)"
          using ne go loop Inl by (simp add: main_run_def plan0 Let_def)
        moreover have "\<not> (\<forall>m \<in> set records. \<not> isl (PublicKey_of_string lib (mint m)))"
          using par Inl sub by auto
        ultimately have "?P (Exit1 e) st1 new"
          using sv' all by blast
        then show ?thesis by blast
      next
        case (Inr c)
        obtain report st4 where
          m: "main_run lib wallet config records answer st = Some (Completed report, st4)"
          and l4: "logs st4 = logs st1" and s4: "saved st4 = saved st1"
          using ne go loop Inr
          by (simp add: main_run_def plan0 Let_def deleteCheckpoint_def)
        have sv4: "saved st4 = saved st @ new" using s4 sv' by simp
        note all4 = all[folded l4]
        have "?P (Completed report) st4 new"
          using m sv4 all4 fin Inr by blast
        then show ?thesis by blast
      qed
    qed
  qed
  with plan show ?thesis by blast
qed


lemma batch_ends_two: "batch_ends (Suc 0) (Suc (Suc 0)) 0 = [Suc 0, Suc (Suc 0)]"
  by (simp add: batch_ends.simps)

theorem resumed_checkpoints_forget_earlier_records_witness:
  "resumeFromCheckpoint
     (default_config\<lparr>batchSize := 1, checkpointInterval := 1, resumeFromCheckpoint := True\<rparr>)
   \<and> 0 < batchSize
       (default_config\<lparr>batchSize := 1, checkpointInterval := 1, resumeFromCheckpoint := True\<rparr>)
   \<and> mint_A \<notin> {mint_C, mint_D}
   \<and> (\<exists>report st'.
        main_run sim_lib (sim_wallet 9)
          (default_config\<lparr>batchSize := 1, checkpointInterval := 1,
             resumeFromCheckpoint := True\<rparr>)
          manifest4 True
          ((sim_start (sim_world_of (Some doge_account) 0))
             \<lparr>checkpointFile := Some \<lparr>lastProcessedIndex = 0, processedMints = [mint_A],
                  c_timestamp = ''2024-01-01T00:00:00.000Z'',
                  summary = \<lparr>processed = 1, t_updated = 1, t_skipped = 0, t_failed = 0\<rparr>\<rparr>\<rparr>)
          = Some (Completed report, st')
        \<and> map processedMints (saved st') = [[mint_C], [mint_C, mint_D]]
        \<and> map lastProcessedIndex (saved st') = [1, 2]
        \<and> map (\<lambda>ck. processed (summary ck)) (saved st') = [1, 2])"
proof -
  let ?ck = "\<lparr>lastProcessedIndex = 0, processedMints = [mint_A],
             c_timestamp = ''2024-01-01T00:00:00.000Z'',
             summary = \<lparr>processed = 1, t_updated = 1, t_skipped = 0, t_failed = 0\<rparr>\<rparr>"
  let ?cfgR = "default_config\<lparr>batchSize := 1, checkpointInterval := 1,
                 resumeFromCheckpoint := True\<rparr>"
  let ?st = "sim_start (sim_world_of (Some doge_account) 0) :: (nat, sim_world) rt"
  let ?stR = "?st\<lparr>checkpointFile := Some ?ck\<rparr>"
  have h1: "resumeFromCheckpoint ?cfgR" by simp
  have h2: "checkpointFile ?stR = Some ?ck" by simp
  have h3: "0 < batchSize ?cfgR" by simp
  have cfg: "skipConfirm ?cfgR" "checkpointInterval ?cfgR = 1" "batchSize ?cfgR = 1"
    by (simp_all add: default_config_def)
  have dm: "distinct (map mint manifest4)"
    by (simp add: manifest4_def target_def mint_A_def mint_B_def mint_C_def mint_D_def)
  have na: "mint_A \<notin> {mint_C, mint_D}"
    by (simp add: mint_A_def mint_C_def mint_D_def)
  have p4: "processedMints ?ck = map mint (take 1 manifest4)"
    by (simp add: manifest4_def target_def)
  have p5: "lastProcessedIndex ?ck = int 1 - 1" by simp
  have plan: "resume_plan ?cfgR manifest4 ?stR
      = (1, summary ?ck, [target mint_C ''Doge #3'', target mint_D ''Doge #4''])"
    using resume_plan_twice[OF h1 h2 dm p4 p5] by (simp add: manifest4_def)
  from resumed_checkpoints_forget_earlier_records[OF h1 h2 h3,
      where records = manifest4 and lib = sim_lib and wallet = "sim_wallet 9" and answer = True]
  obtain metadata ex st' new where
    rp: "resume_plan ?cfgR manifest4 ?stR = (lastProcessedIndex ?ck + 1, summary ?ck, metadata)"
    and run: "main_run sim_lib (sim_wallet 9) ?cfgR manifest4 True ?stR = Some (ex, st')"
    and sv: "saved st' = saved ?stR @ new"
    and each: "\<forall>ck \<in> set new.
          lastProcessedIndex ck = lastProcessedIndex ?ck + 1 + processed (summary ck) - 1
        \<and> processed (summary ck) = int (length (processedMints ck))
        \<and> processedMints ck = map r_mint (take (length (processedMints ck)) (logs st'))
        \<and> processedMints ck = map mint (take (length (processedMints ck)) metadata)
        \<and> set (processedMints ck) \<inter> set (processedMints ?ck) = {}
        \<and> checkpointInterval ?cfgR \<noteq> 0
        \<and> processed (summary ck) mod checkpointInterval ?cfgR = 0"
    and fin: "\<forall>report. ex = Completed report \<longrightarrow>
          map (\<lambda>ck. processed (summary ck)) new =
            filter (\<lambda>k. checkpointInterval ?cfgR \<noteq> 0 \<and> k mod checkpointInterval ?cfgR = 0)
              (map int (batch_ends (nat (batchSize ?cfgR)) (length metadata) 0))"
    and par: "skipConfirm ?cfgR \<and> metadata \<noteq> []
         \<and> (\<forall>m \<in> set manifest4. \<not> isl (PublicKey_of_string sim_lib (mint m)))
        \<longrightarrow> (\<exists>report. ex = Completed report)"
    by blast
  from rp plan have md: "metadata = [target mint_C ''Doge #3'', target mint_D ''Doge #4'']"
    by simp
  from par cfg(1) manifest4_parses obtain report where ex: "ex = Completed report"
    by (auto simp: md)
  have sv': "saved st' = new" using sv by (simp add: sim_start_def)
  have counts: "map (\<lambda>ck. processed (summary ck)) new = [1, 2]"
    using fin ex by (simp add: cfg md batch_ends_two)
  then obtain k1 k2 where new: "new = [k1, k2]" and p: "processed (summary k1) = 1"
    "processed (summary k2) = 2" by auto
  from each have e: "\<forall>ck \<in> set new.
          lastProcessedIndex ck = processed (summary ck)
        \<and> processed (summary ck) = int (length (processedMints ck))
        \<and> processedMints ck = map mint (take (length (processedMints ck)) metadata)"
    by auto
  from e new p have l: "length (processedMints k1) = 1" "length (processedMints k2) = 2"
    by simp_all
  from e new have
    "processedMints k1 = map mint (take (length (processedMints k1)) metadata)"
    "processedMints k2 = map mint (take (length (processedMints k2)) metadata)"
    "lastProcessedIndex k1 = processed (summary k1)"
    "lastProcessedIndex k2 = processed (summary k2)"
    by simp_all
  then have "processedMints k1 = [mint_C]" "processedMints k2 = [mint_C, mint_D]"
    "lastProcessedIndex k1 = 1" "lastProcessedIndex k2 = 2"
    unfolding l p by (simp_all add: md target_def)
  then have "map processedMints new = [[mint_C], [mint_C, mint_D]]"
    "map lastProcessedIndex new = [1, 2]"
    by (simp_all add: new)
  with run ex sv' counts h1 h3 na show ?thesis by auto
qed

end
